theory Spec2Isabelle
  imports Main "HOL-Library.AList" "HOL-Library.Char_ord" "HOL-Library.List_Lexorder"
begin

section \<open>Text utilities of \<open>sysutil_wifi.cpp\<close>\<close>

text \<open>
  Strings are \<open>std::string\<close>, modelled as \<^typ>\<open>string\<close> (a list of 8-bit characters).
  The program never calls \<open>setlocale\<close>, so \<open>std::isspace\<close> and \<open>std::toupper\<close> are
  those of the "C" locale: the six ASCII white-space characters, and the letters
  \<open>a\<close>..\<open>z\<close> mapped to \<open>A\<close>..\<open>Z\<close>.
\<close>

definition isspace :: "char \<Rightarrow> bool" where
  "isspace c \<longleftrightarrow>
     c = CHR '' '' \<or> c = CHR 0x09 \<or> c = CHR 0x0A \<or> c = CHR 0x0B \<or> c = CHR 0x0C \<or> c = CHR 0x0D"

definition toupper :: "char \<Rightarrow> char" where
  "toupper c =
     (if 97 \<le> (of_char c :: nat) \<and> (of_char c :: nat) \<le> 122
      then char_of ((of_char c :: nat) - 32) else c)"

text \<open>\<open>trim_copy\<close>: erase the leading white space, then the trailing white space.\<close>

definition trim_copy :: "string \<Rightarrow> string" where
  "trim_copy v = rev (dropWhile isspace (rev (dropWhile isspace v)))"

definition to_upper :: "string \<Rightarrow> string" where
  "to_upper v = map toupper v"

definition equal_after_uppercase :: "string \<Rightarrow> string \<Rightarrow> bool" where
  "equal_after_uppercase lhs rhs \<longleftrightarrow> to_upper lhs = to_upper rhs"

text \<open>\<open>s.rfind(p, 0) == 0\<close>: the string \<open>s\<close> starts with \<open>p\<close>.\<close>

definition starts_with :: "string \<Rightarrow> string \<Rightarrow> bool" where
  "starts_with s p \<longleftrightarrow> take (length p) s = p"

text \<open>\<open>haystack.find(needle) != npos\<close>: the needle occurs at some position.\<close>

fun str_contains :: "string \<Rightarrow> string \<Rightarrow> bool" where
  "str_contains [] needle = (needle = [])"
| "str_contains (c # cs) needle = (starts_with (c # cs) needle \<or> str_contains cs needle)"

definition contains_after_uppercase :: "string \<Rightarrow> string \<Rightarrow> bool" where
  "contains_after_uppercase haystack needle \<longleftrightarrow>
     str_contains (to_upper haystack) (to_upper needle)"

definition json_escape_char :: "char \<Rightarrow> string" where
  "json_escape_char c =
     (if c = CHR 0x5C then [CHR 0x5C, CHR 0x5C]
      else if c = CHR 0x22 then [CHR 0x5C, CHR 0x22]
      else if c = CHR 0x0A then [CHR 0x5C, CHR ''n'']
      else if c = CHR 0x0D then [CHR 0x5C, CHR ''r'']
      else if c = CHR 0x09 then [CHR 0x5C, CHR ''t'']
      else [c])"

definition json_escape :: "string \<Rightarrow> string" where
  "json_escape input = concat (map json_escape_char input)"

text \<open>
  \<open>std::to_string\<close> on an \<open>int\<close>: the decimal digits, with a minus sign for a negative
  value. An \<open>int\<close> of the program is a 32-bit integer; the functions modelled here only
  compare and copy such values, so they are \<^typ>\<open>int\<close> and no arithmetic can wrap.
\<close>

fun nat_digits :: "nat \<Rightarrow> string" where
  "nat_digits n =
     (if n < 10 then [''0123456789'' ! n]
      else nat_digits (n div 10) @ [''0123456789'' ! (n mod 10)])"

definition to_string :: "int \<Rightarrow> string" where
  "to_string i = (if i < 0 then CHR ''-'' # nat_digits (nat (- i)) else nat_digits (nat i))"

definition to_string_if :: "int \<Rightarrow> string" where
  "to_string_if v = (if v \<le> 0 then [] else to_string v)"

section \<open>Identifier normalisation\<close>

definition normalize_id :: "string \<Rightarrow> string" where
  "normalize_id value0 =
     (let v = trim_copy value0 in
      if v = [] then []
      else if starts_with v ''0x'' \<or> starts_with v ''0X'' then ''0x'' @ to_upper (drop 2 v)
      else ''0x'' @ to_upper v)"

definition normalize_chipset :: "string \<Rightarrow> string" where
  "normalize_chipset v = to_upper (trim_copy v)"

text \<open>
  The part of a trimmed identifier that \<open>normalize_id\<close> keeps after its own \<open>0x\<close>:
  everything behind one leading \<open>0x\<close> or \<open>0X\<close>, or the whole string.
\<close>

definition id_body :: "string \<Rightarrow> string" where
  "id_body v = (if starts_with v ''0x'' \<or> starts_with v ''0X'' then drop 2 v else v)"

definition is_hex :: "char \<Rightarrow> bool" where
  "is_hex c \<longleftrightarrow> c \<in> set ''0123456789abcdefABCDEF''"

definition is_upper_hex :: "char \<Rightarrow> bool" where
  "is_upper_hex c \<longleftrightarrow> c \<in> set ''0123456789ABCDEF''"

text \<open>
  The canonical form the data model asks of an identifier: the literal \<open>0x\<close> and then
  four or more upper-case hexadecimal digits.
\<close>

definition canonical_id :: "string \<Rightarrow> bool" where
  "canonical_id s \<longleftrightarrow>
     take 2 s = ''0x'' \<and> 4 \<le> length (drop 2 s) \<and> list_all is_upper_hex (drop 2 s)"


section \<open>Data model\<close>

record WifiTxPowerOverride =
  tx_power :: string
  tx_power_high :: string
  tx_power_low :: string
  card_name :: string
  power_level :: string
  profile_vendor_id :: string
  profile_device_id :: string
  profile_chipset :: string

record WifiCardProfile =
  vendor_id :: string
  device_id :: string
  chipset :: string
  name :: string
  power_mode :: string
  min_mw :: int
  max_mw :: int
  lowest_mw :: int
  low_mw :: int
  mid_mw :: int
  high_mw :: int

text \<open>
  \<open>WifiCardInfo\<close> is declared in \<open>sysutil_wifi.h\<close>; its fields are the ones this file
  reads and writes. They carry the prefix \<open>ci_\<close> here, since several share a name with
  a field of the two records above.
\<close>

record WifiCardInfo =
  ci_interface_name :: string
  ci_driver_name :: string
  ci_phy_index :: int
  ci_mac :: string
  ci_vendor_id :: string
  ci_device_id :: string
  ci_detected_type :: string
  ci_override_type :: string
  ci_effective_type :: string
  ci_tx_power :: string
  ci_tx_power_high :: string
  ci_tx_power_low :: string
  ci_card_name :: string
  ci_power_mode :: string
  ci_power_level :: string
  ci_power_lowest :: string
  ci_power_low :: string
  ci_power_mid :: string
  ci_power_high :: string
  ci_power_min :: string
  ci_power_max :: string
  ci_disabled :: bool

text \<open>A default-constructed \<open>WifiTxPowerOverride\<close> and \<open>WifiCardProfile\<close>.\<close>

definition empty_tx_override :: WifiTxPowerOverride where
  "empty_tx_override =
     \<lparr>tx_power = [], tx_power_high = [], tx_power_low = [], card_name = [], power_level = [],
      profile_vendor_id = [], profile_device_id = [], profile_chipset = []\<rparr>"

definition empty_profile :: WifiCardProfile where
  "empty_profile =
     \<lparr>vendor_id = [], device_id = [], chipset = [], name = [], power_mode = [],
      min_mw = 0, max_mw = 0, lowest_mw = 0, low_mw = 0, mid_mw = 0, high_mw = 0\<rparr>"

definition value_or :: "'a option \<Rightarrow> 'a \<Rightarrow> 'a" where
  "value_or v d = (case v of None \<Rightarrow> d | Some x \<Rightarrow> x)"

definition has_tx_power_values :: "WifiTxPowerOverride \<Rightarrow> bool" where
  "has_tx_power_values entry \<longleftrightarrow>
     tx_power entry \<noteq> [] \<or> tx_power_high entry \<noteq> [] \<or> tx_power_low entry \<noteq> [] \<or>
     card_name entry \<noteq> [] \<or> power_level entry \<noteq> [] \<or> profile_vendor_id entry \<noteq> [] \<or>
     profile_device_id entry \<noteq> [] \<or> profile_chipset entry \<noteq> []"

section \<open>Profile catalog\<close>

text \<open>
  \<open>load_wifi_card_profiles\<close> reads every object of the \<open>cards\<close> array through
  \<open>extract_string_field\<close> and \<open>extract_int_field\<close> of \<open>sysutil_protocol.h\<close>, which
  are not part of this file. A catalog object is therefore given by what those calls
  return on it: one optional value per field name, and for the nested \<open>levels_mw\<close>
  object (when \<open>extract_object_field\<close> finds one) one optional value per level name.
\<close>

record levels_object =
  lv_lowest :: "int option"
  lv_low :: "int option"
  lv_mid :: "int option"
  lv_high :: "int option"

record card_object =
  obj_vendor_id :: "string option"
  obj_device_id :: "string option"
  obj_chipset :: "string option"
  obj_name :: "string option"
  obj_power_mode :: "string option"
  obj_min_mw :: "int option"
  obj_max_mw :: "int option"
  obj_lowest :: "int option"
  obj_low :: "int option"
  obj_mid :: "int option"
  obj_high :: "int option"
  obj_levels_mw :: "levels_object option"

definition default_wifi_card_profiles :: "WifiCardProfile list" where
  "default_wifi_card_profiles =
     [empty_profile
        \<lparr>vendor_id := normalize_id ''0x02D0'', device_id := normalize_id ''0xA9A6'',
         chipset := normalize_chipset ''BROADCOM'', name := ''Raspberry Internal'',
         power_mode := ''FIXED''\<rparr>,
      empty_profile
        \<lparr>vendor_id := normalize_id ''0x0BDA'', device_id := normalize_id ''0xA81A'',
         chipset := normalize_chipset ''OPENHD_RTL_88X2EU'', name := ''LB-Link 8812eu'',
         power_mode := ''MW'', min_mw := 25, max_mw := 1000, lowest_mw := 25,
         low_mw := 100, mid_mw := 500, high_mw := 1000\<rparr>]"

text \<open>The local lambda \<open>first_positive\<close>.\<close>

fun first_positive :: "int list \<Rightarrow> int" where
  "first_positive [] = 0"
| "first_positive (v # vs) = (if v > 0 then v else first_positive vs)"

text \<open>Lines 502 to 507: the six flat fields, each 0 when absent.\<close>

definition read_flat_figures :: "card_object \<Rightarrow> WifiCardProfile \<Rightarrow> WifiCardProfile" where
  "read_flat_figures obj profile =
     profile\<lparr>min_mw := value_or (obj_min_mw obj) 0,
             max_mw := value_or (obj_max_mw obj) 0,
             lowest_mw := value_or (obj_lowest obj) 0,
             low_mw := value_or (obj_low obj) 0,
             mid_mw := value_or (obj_mid obj) 0,
             high_mw := value_or (obj_high obj) 0\<rparr>"

text \<open>Lines 509 to 522: a nested level fills a flat level that is not positive.\<close>

definition apply_levels_mw :: "card_object \<Rightarrow> WifiCardProfile \<Rightarrow> WifiCardProfile" where
  "apply_levels_mw obj profile =
     (case obj_levels_mw obj of
        None \<Rightarrow> profile
      | Some levels \<Rightarrow>
          (let p1 = (if lowest_mw profile \<le> 0
                     then profile\<lparr>lowest_mw := value_or (lv_lowest levels) 0\<rparr> else profile);
               p2 = (if low_mw p1 \<le> 0 then p1\<lparr>low_mw := value_or (lv_low levels) 0\<rparr> else p1);
               p3 = (if mid_mw p2 \<le> 0 then p2\<lparr>mid_mw := value_or (lv_mid levels) 0\<rparr> else p2);
               p4 = (if high_mw p3 \<le> 0 then p3\<lparr>high_mw := value_or (lv_high levels) 0\<rparr> else p3)
           in p4))"

text \<open>Lines 533 to 556: the six backfills, in the order of the source.\<close>

definition backfill_figures :: "WifiCardProfile \<Rightarrow> WifiCardProfile" where
  "backfill_figures profile =
     (let p1 = (if min_mw profile \<le> 0
                then profile\<lparr>min_mw := first_positive
                       [lowest_mw profile, low_mw profile, mid_mw profile, high_mw profile]\<rparr>
                else profile);
          p2 = (if max_mw p1 \<le> 0
                then p1\<lparr>max_mw := first_positive [high_mw p1, mid_mw p1, low_mw p1, lowest_mw p1]\<rparr>
                else p1);
          p3 = (if lowest_mw p2 \<le> 0
                then p2\<lparr>lowest_mw := first_positive [low_mw p2, mid_mw p2, high_mw p2, min_mw p2]\<rparr>
                else p2);
          p4 = (if low_mw p3 \<le> 0
                then p3\<lparr>low_mw := first_positive [lowest_mw p3, mid_mw p3, high_mw p3, min_mw p3]\<rparr>
                else p3);
          p5 = (if mid_mw p4 \<le> 0
                then p4\<lparr>mid_mw := first_positive [low_mw p4, high_mw p4, max_mw p4]\<rparr>
                else p4);
          p6 = (if high_mw p5 \<le> 0
                then p5\<lparr>high_mw := first_positive [max_mw p5, mid_mw p5, low_mw p5, lowest_mw p5]\<rparr>
                else p5)
      in p6)"

text \<open>
  The body of the loop over the objects: \<open>None\<close> when the object is skipped
  (\<open>continue\<close> without \<open>push_back\<close>), otherwise the profile pushed.
\<close>

definition parse_card_object :: "card_object \<Rightarrow> WifiCardProfile option" where
  "parse_card_object obj =
     (case obj_vendor_id obj of
        None \<Rightarrow> None
      | Some vendor \<Rightarrow>
          (case obj_device_id obj of
             None \<Rightarrow> None
           | Some device \<Rightarrow>
               (let profile = empty_profile
                      \<lparr>vendor_id := normalize_id vendor,
                       device_id := normalize_id device,
                       chipset := normalize_chipset (value_or (obj_chipset obj) []),
                       name := value_or (obj_name obj) [],
                       power_mode := to_upper (value_or (obj_power_mode obj) ''mw'')\<rparr>
                in if power_mode profile = ''FIXED''
                   then Some (profile\<lparr>min_mw := 0, max_mw := 0, lowest_mw := 0,
                                      low_mw := 0, mid_mw := 0, high_mw := 0\<rparr>)
                   else Some (backfill_figures (apply_levels_mw obj (read_flat_figures obj profile))))))"

text \<open>
  The argument is \<open>None\<close> when the catalog file cannot be read, and otherwise the
  objects that \<open>extract_array_objects\<close> finds in it.
\<close>

definition load_wifi_card_profiles :: "card_object list option \<Rightarrow> WifiCardProfile list" where
  "load_wifi_card_profiles content =
     (case content of
        None \<Rightarrow> default_wifi_card_profiles
      | Some objects \<Rightarrow>
          if objects = [] then default_wifi_card_profiles
          else (let profiles = List.map_filter parse_card_object objects
                in if profiles = [] then default_wifi_card_profiles else profiles))"

text \<open>
  \<open>find_wifi_profile\<close>: the loop carries the two candidates; an exact chipset match
  returns from inside the loop. The result is the profile pointed to, or \<open>None\<close> for
  \<open>nullptr\<close>.
\<close>

fun find_wifi_profile_loop ::
  "WifiCardProfile list \<Rightarrow> string \<Rightarrow> string \<Rightarrow> string \<Rightarrow>
   WifiCardProfile option \<Rightarrow> WifiCardProfile option \<Rightarrow> WifiCardProfile option" where
  "find_wifi_profile_loop [] vendor device chip vendor_device_match generic_match =
     (case generic_match of Some g \<Rightarrow> Some g | None \<Rightarrow> vendor_device_match)"
| "find_wifi_profile_loop (profile # rest) vendor device chip vendor_device_match generic_match =
     (if equal_after_uppercase (vendor_id profile) vendor \<and>
         equal_after_uppercase (device_id profile) device
      then (if chipset profile = []
            then find_wifi_profile_loop rest vendor device chip
                   (if vendor_device_match = None then Some profile else vendor_device_match)
                   (if generic_match = None then Some profile else generic_match)
            else if equal_after_uppercase (chipset profile) chip
            then Some profile
            else find_wifi_profile_loop rest vendor device chip
                   (if vendor_device_match = None then Some profile else vendor_device_match)
                   generic_match)
      else find_wifi_profile_loop rest vendor device chip vendor_device_match generic_match)"

definition find_wifi_profile ::
  "WifiCardProfile list \<Rightarrow> string \<Rightarrow> string \<Rightarrow> string \<Rightarrow> WifiCardProfile option" where
  "find_wifi_profile profiles vendor device chip =
     find_wifi_profile_loop profiles vendor device chip None None"

text \<open>
  The precedence of the specification, written with \<^const>\<open>List.find\<close> (the first
  element of the list that satisfies a predicate): the first exact match, else the
  first generic match, else the first vendor/device match.
\<close>

definition vendor_device_matches :: "string \<Rightarrow> string \<Rightarrow> WifiCardProfile \<Rightarrow> bool" where
  "vendor_device_matches vendor device p \<longleftrightarrow>
     equal_after_uppercase (vendor_id p) vendor \<and> equal_after_uppercase (device_id p) device"

definition exact_match :: "string \<Rightarrow> string \<Rightarrow> string \<Rightarrow> WifiCardProfile \<Rightarrow> bool" where
  "exact_match vendor device chip p \<longleftrightarrow>
     vendor_device_matches vendor device p \<and> equal_after_uppercase (chipset p) chip"

definition generic_match :: "string \<Rightarrow> string \<Rightarrow> WifiCardProfile \<Rightarrow> bool" where
  "generic_match vendor device p \<longleftrightarrow> vendor_device_matches vendor device p \<and> chipset p = []"

definition spec_find_wifi_profile ::
  "WifiCardProfile list \<Rightarrow> string \<Rightarrow> string \<Rightarrow> string \<Rightarrow> WifiCardProfile option" where
  "spec_find_wifi_profile profiles vendor device chip =
     (case List.find (exact_match vendor device chip) profiles of
        Some p \<Rightarrow> Some p
      | None \<Rightarrow>
          (case List.find (generic_match vendor device) profiles of
             Some p \<Rightarrow> Some p
           | None \<Rightarrow> List.find (vendor_device_matches vendor device) profiles))"




definition empty_card_object :: card_object where
  "empty_card_object =
     \<lparr>obj_vendor_id = None, obj_device_id = None, obj_chipset = None, obj_name = None,
      obj_power_mode = None, obj_min_mw = None, obj_max_mw = None, obj_lowest = None,
      obj_low = None, obj_mid = None, obj_high = None, obj_levels_mw = None\<rparr>"

section \<open>Override stores\<close>

text \<open>
  A store is a \<open>std::unordered_map\<close>, modelled as an association list with distinct
  keys that is read as a finite map: \<^const>\<open>map_of\<close> is \<open>find\<close>, \<^const>\<open>AList.update\<close>
  is assignment through \<open>operator[]\<close>, \<^const>\<open>AList.delete\<close> is \<open>erase\<close>. The position of
  an entry in the list has no meaning. The order in which the container is iterated is
  left open by C++; the writers below take it from the process (see
  \<open>iteration_sequence\<close>), not from the list.

  A file is its content, or \<open>None\<close> when it cannot be opened for reading.
  \<open>std::getline\<close> yields the text before each newline, and a last line without a
  newline when that line is not empty.
\<close>

fun getlines_from :: "string \<Rightarrow> string \<Rightarrow> string list" where
  "getlines_from cur [] = (if cur = [] then [] else [cur])"
| "getlines_from cur (c # cs) =
     (if c = CHR 0x0A then cur # getlines_from [] cs else getlines_from (cur @ [c]) cs)"

definition getlines :: "string \<Rightarrow> string list" where
  "getlines content = getlines_from [] content"

text \<open>
  \<open>pos = s.find(c)\<close> followed by \<open>s.substr(0, pos)\<close> and \<open>s.substr(pos + 1)\<close>:
  the text before and after the first \<open>c\<close>, or \<open>None\<close> for \<open>npos\<close>.
\<close>

definition split_at_char :: "char \<Rightarrow> string \<Rightarrow> (string \<times> string) option" where
  "split_at_char c s =
     (if c \<in> set s
      then Some (takeWhile (\<lambda>x. x \<noteq> c) s, tl (dropWhile (\<lambda>x. x \<noteq> c) s))
      else None)"

definition apply_override_line :: "string \<Rightarrow> (string \<times> string) list \<Rightarrow> (string \<times> string) list" where
  "apply_override_line line0 overrides =
     (let line = trim_copy line0 in
      if line = [] \<or> hd line = CHR ''#'' then overrides
      else (case split_at_char CHR ''='' line of
              None \<Rightarrow> overrides
            | Some (l, r) \<Rightarrow>
                (let iface = trim_copy l; type = trim_copy r in
                 if iface = [] \<or> type = [] then overrides
                 else AList.update iface type overrides)))"

definition parse_overrides :: "string \<Rightarrow> (string \<times> string) list" where
  "parse_overrides content = fold apply_override_line (getlines content) []"

text \<open>The chain of comparisons on \<open>field_upper\<close>; an unknown field changes nothing.\<close>

definition set_tx_field :: "string \<Rightarrow> string \<Rightarrow> WifiTxPowerOverride \<Rightarrow> WifiTxPowerOverride" where
  "set_tx_field field_upper v entry =
     (if field_upper = ''TX_POWER'' then entry\<lparr>tx_power := v\<rparr>
      else if field_upper = ''TX_POWER_HIGH'' then entry\<lparr>tx_power_high := v\<rparr>
      else if field_upper = ''TX_POWER_LOW'' then entry\<lparr>tx_power_low := v\<rparr>
      else if field_upper = ''CARD_NAME'' then entry\<lparr>card_name := v\<rparr>
      else if field_upper = ''POWER_LEVEL'' then entry\<lparr>power_level := v\<rparr>
      else if field_upper = ''PROFILE_VENDOR_ID'' then entry\<lparr>profile_vendor_id := normalize_id v\<rparr>
      else if field_upper = ''PROFILE_DEVICE_ID'' then entry\<lparr>profile_device_id := normalize_id v\<rparr>
      else if field_upper = ''PROFILE_CHIPSET'' then entry\<lparr>profile_chipset := normalize_chipset v\<rparr>
      else entry)"

text \<open>
  One turn of the loop of \<open>load_tx_power_overrides\<close>. \<open>overrides[iface]\<close> creates an
  empty record for an interface that has none, also when the field is unknown.
\<close>

definition apply_tx_power_line ::
  "string \<Rightarrow> (string \<times> WifiTxPowerOverride) list \<Rightarrow> (string \<times> WifiTxPowerOverride) list" where
  "apply_tx_power_line line0 overrides =
     (let line = trim_copy line0 in
      if line = [] \<or> hd line = CHR ''#'' then overrides
      else (case split_at_char CHR ''='' line of
              None \<Rightarrow> overrides
            | Some (l, r) \<Rightarrow>
                (let key = trim_copy l; v = trim_copy r in
                 if key = [] then overrides
                 else (case split_at_char CHR ''.'' key of
                         None \<Rightarrow> overrides
                       | Some (i, f) \<Rightarrow>
                           (let iface = trim_copy i; field = trim_copy f in
                            if iface = [] \<or> field = [] then overrides
                            else (let field_upper = to_upper field;
                                      entry = value_or (map_of overrides iface) empty_tx_override
                                  in AList.update iface (set_tx_field field_upper v entry)
                                       overrides))))))"

definition parse_tx_power_overrides :: "string \<Rightarrow> (string \<times> WifiTxPowerOverride) list" where
  "parse_tx_power_overrides content = fold apply_tx_power_line (getlines content) []"

text \<open>What the two writers send to the file stream.\<close>

definition overrides_text :: "(string \<times> string) list \<Rightarrow> string" where
  "overrides_text data =
     ''# OpenHD SysUtils Wi-Fi overrides\<newline>'' @
     concat (map (\<lambda>(iface, type). iface @ ''='' @ type @ ''\<newline>'') data)"

definition tx_entry_lines :: "string \<Rightarrow> WifiTxPowerOverride \<Rightarrow> string list" where
  "tx_entry_lines iface values =
     (if card_name values \<noteq> []
      then [iface @ ''.card_name='' @ card_name values @ ''\<newline>''] else []) @
     (if power_level values \<noteq> []
      then [iface @ ''.power_level='' @ power_level values @ ''\<newline>''] else []) @
     (if profile_vendor_id values \<noteq> []
      then [iface @ ''.profile_vendor_id='' @ profile_vendor_id values @ ''\<newline>''] else []) @
     (if profile_device_id values \<noteq> []
      then [iface @ ''.profile_device_id='' @ profile_device_id values @ ''\<newline>''] else []) @
     (if profile_chipset values \<noteq> []
      then [iface @ ''.profile_chipset='' @ profile_chipset values @ ''\<newline>''] else []) @
     (if tx_power values \<noteq> []
      then [iface @ ''.tx_power='' @ tx_power values @ ''\<newline>''] else []) @
     (if tx_power_high values \<noteq> []
      then [iface @ ''.tx_power_high='' @ tx_power_high values @ ''\<newline>''] else []) @
     (if tx_power_low values \<noteq> []
      then [iface @ ''.tx_power_low='' @ tx_power_low values @ ''\<newline>''] else [])"

definition tx_power_overrides_text :: "(string \<times> WifiTxPowerOverride) list \<Rightarrow> string" where
  "tx_power_overrides_text data =
     ''# OpenHD SysUtils Wi-Fi TX power overrides\<newline>'' @
     concat (map (\<lambda>(iface, values).
                    if has_tx_power_values values then concat (tx_entry_lines iface values)
                    else [])
                 data)"

text \<open>
  The field order of the specification (profile fields, then name and level, then raw
  power fields), as a list of key and accessor, and the lines it would give.
\<close>

definition spec_field_order :: "(string \<times> (WifiTxPowerOverride \<Rightarrow> string)) list" where
  "spec_field_order =
     [(''profile_vendor_id'', profile_vendor_id), (''profile_device_id'', profile_device_id),
      (''profile_chipset'', profile_chipset), (''card_name'', card_name),
      (''power_level'', power_level), (''tx_power'', tx_power),
      (''tx_power_high'', tx_power_high), (''tx_power_low'', tx_power_low)]"

text \<open>The field order of the source.\<close>

definition source_field_order :: "(string \<times> (WifiTxPowerOverride \<Rightarrow> string)) list" where
  "source_field_order =
     [(''card_name'', card_name), (''power_level'', power_level),
      (''profile_vendor_id'', profile_vendor_id), (''profile_device_id'', profile_device_id),
      (''profile_chipset'', profile_chipset), (''tx_power'', tx_power),
      (''tx_power_high'', tx_power_high), (''tx_power_low'', tx_power_low)]"

definition lines_in_order ::
  "(string \<times> (WifiTxPowerOverride \<Rightarrow> string)) list \<Rightarrow> string \<Rightarrow> WifiTxPowerOverride \<Rightarrow> string list" where
  "lines_in_order order iface values =
     map (\<lambda>(key, field). iface @ ''.'' @ key @ ''='' @ field values @ ''\<newline>'')
       (filter (\<lambda>(key, field). field values \<noteq> []) order)"

section \<open>The process and its files\<close>

text \<open>
  The state the handlers read and change: the two override files, whether each can be
  created and opened for writing, the files opened for writing so far, the rank that
  the hashing of each of the two containers gives a key, the catalog file, what
  \<open>/sys/class/net\<close> holds, and the two globals.

  A writer fails, and leaves its file alone, when the directory cannot be created or
  the file cannot be opened; once the file is open every line is taken to be written.
\<close>

record sysfs_probe =
  probe_driver_name :: string
  probe_phy_index :: int
  probe_address :: "string option"
  probe_vendor_id :: string
  probe_device_id :: string

record world =
  overrides_file :: "string option"
  tx_power_file :: "string option"
  overrides_writable :: bool
  tx_power_writable :: bool
  files_written :: "string list"
  overrides_rank :: "string \<Rightarrow> nat"
  tx_power_rank :: "string \<Rightarrow> nat"
  cards_file :: "card_object list option"
  wifi_interfaces :: "(string \<times> sysfs_probe) list"
  g_wifi_cards :: "WifiCardInfo list"
  g_wifi_initialized :: bool

definition kOverridesPath :: string where
  "kOverridesPath = ''/usr/local/share/OpenHD/SysUtils/wifi_overrides.conf''"

definition kTxPowerOverridesPath :: string where
  "kTxPowerOverridesPath = ''/usr/local/share/OpenHD/SysUtils/wifi_txpower.conf''"

definition load_overrides :: "world \<Rightarrow> (string \<times> string) list" where
  "load_overrides w =
     (case overrides_file w of None \<Rightarrow> [] | Some content \<Rightarrow> parse_overrides content)"

definition load_tx_power_overrides :: "world \<Rightarrow> (string \<times> WifiTxPowerOverride) list" where
  "load_tx_power_overrides w =
     (case tx_power_file w of None \<Rightarrow> [] | Some content \<Rightarrow> parse_tx_power_overrides content)"

text \<open>
  The sequence in which a range-based \<open>for\<close> visits the entries of a store. It is a
  function of the finite map and of the rank of the keys: the entries, one for each
  key, are put in the order of their keys and then, stably, in the order of their ranks.
  Every order of the entries is the sequence of some rank, and the positions in the
  list play no part.
\<close>

definition iteration_sequence :: "(string \<Rightarrow> nat) \<Rightarrow> (string \<times> 'v) list \<Rightarrow> (string \<times> 'v) list" where
  "iteration_sequence rank data =
     sort_key (\<lambda>entry. rank (fst entry)) (sort_key fst (AList.clearjunk data))"

definition write_overrides :: "(string \<times> string) list \<Rightarrow> world \<Rightarrow> bool \<times> world" where
  "write_overrides data w =
     (if overrides_writable w
      then (True, w\<lparr>overrides_file :=
                      Some (overrides_text (iteration_sequence (overrides_rank w) data)),
                    files_written := files_written w @ [kOverridesPath]\<rparr>)
      else (False, w))"

definition write_tx_power_overrides ::
  "(string \<times> WifiTxPowerOverride) list \<Rightarrow> world \<Rightarrow> bool \<times> world" where
  "write_tx_power_overrides data w =
     (if tx_power_writable w
      then (True, w\<lparr>tx_power_file :=
                      Some (tx_power_overrides_text
                              (iteration_sequence (tx_power_rank w) data)),
                    files_written := files_written w @ [kTxPowerOverridesPath]\<rparr>)
      else (False, w))"

section \<open>Policy resolution\<close>

definition driver_to_type :: "string \<Rightarrow> string" where
  "driver_to_type driver_name =
     (if equal_after_uppercase driver_name ''rtl88xxau_ohd'' then ''OPENHD_RTL_88X2AU''
      else if equal_after_uppercase driver_name ''rtl88x2au_ohd'' then ''OPENHD_RTL_88X2CU''
      else if equal_after_uppercase driver_name ''rtl88x2bu_ohd'' then ''OPENHD_RTL_88X2BU''
      else if equal_after_uppercase driver_name ''rtl88x2eu_ohd'' then ''OPENHD_RTL_88X2EU''
      else if equal_after_uppercase driver_name ''cnss_pci'' then ''QUALCOMM''
      else if equal_after_uppercase driver_name ''rtl8852bu_ohd'' then ''OPENHD_RTL_8852BU''
      else if equal_after_uppercase driver_name ''rtl88x2cu_ohd'' then ''OPENHD_RTL_88X2CU''
      else if contains_after_uppercase driver_name ''ath9k'' then ''ATHEROS''
      else if contains_after_uppercase driver_name ''rt2800usb'' then ''RALINK''
      else if contains_after_uppercase driver_name ''iwlwifi'' then ''INTEL''
      else if contains_after_uppercase driver_name ''brcmfmac'' \<or>
              contains_after_uppercase driver_name ''bcmsdh_sdmmc'' then ''BROADCOM''
      else if contains_after_uppercase driver_name ''aicwf_sdio'' then ''AIC''
      else if contains_after_uppercase driver_name ''88xxau'' then ''RTL_88X2AU''
      else if contains_after_uppercase driver_name ''rtw_8822bu'' then ''RTL_88X2BU''
      else if contains_after_uppercase driver_name ''mt7921u'' then ''MT_7921u''
      else ''UNKNOWN'')"

text \<open>
  Lines 936 to 968 of \<open>build_wifi_card\<close> read sysfs: the driver name out of \<open>uevent\<close>,
  the phy index, the address file and the vendor and device identifiers. A
  \<^typ>\<open>sysfs_probe\<close> holds what these reads leave in the card (the phy index is the one
  read, or the initial value of the field), and the content of the address file.
\<close>

definition probed_card :: "string \<Rightarrow> sysfs_probe \<Rightarrow> WifiCardInfo" where
  "probed_card interface_name probe =
     \<lparr>ci_interface_name = interface_name,
      ci_driver_name = probe_driver_name probe,
      ci_phy_index = probe_phy_index probe,
      ci_mac = trim_copy (value_or (probe_address probe) []),
      ci_vendor_id = probe_vendor_id probe,
      ci_device_id = probe_device_id probe,
      ci_detected_type = driver_to_type (probe_driver_name probe),
      ci_override_type = [], ci_effective_type = [],
      ci_tx_power = [], ci_tx_power_high = [], ci_tx_power_low = [], ci_card_name = [],
      ci_power_mode = [], ci_power_level = [], ci_power_lowest = [], ci_power_low = [],
      ci_power_mid = [], ci_power_high = [], ci_power_min = [], ci_power_max = [],
      ci_disabled = False\<rparr>"

text \<open>Lines 970 to 981.\<close>

definition apply_type_override :: "string option \<Rightarrow> WifiCardInfo \<Rightarrow> WifiCardInfo" where
  "apply_type_override override_it wcard =
     (case override_it of
        Some t \<Rightarrow>
          (if equal_after_uppercase t ''DISABLED''
           then wcard\<lparr>ci_override_type := t, ci_disabled := True,
                     ci_effective_type := ci_detected_type wcard\<rparr>
           else wcard\<lparr>ci_override_type := t, ci_effective_type := t\<rparr>)
      | None \<Rightarrow> wcard\<lparr>ci_effective_type := ci_detected_type wcard\<rparr>)"

text \<open>Lines 983 to 1010: the profile the card is resolved against.\<close>

definition select_profile ::
  "WifiCardProfile list \<Rightarrow> WifiCardInfo \<Rightarrow> WifiTxPowerOverride option \<Rightarrow> WifiCardProfile option" where
  "select_profile profiles wcard tx_it =
     (let profile = find_wifi_profile profiles (ci_vendor_id wcard) (ci_device_id wcard)
                      (ci_detected_type wcard)
      in case tx_it of
           None \<Rightarrow> profile
         | Some override_profile \<Rightarrow>
             (if profile_vendor_id override_profile \<noteq> [] \<and>
                 profile_device_id override_profile \<noteq> []
              then (let override_chipset =
                          (if profile_chipset override_profile = [] then ci_detected_type wcard
                           else profile_chipset override_profile);
                        first_try = find_wifi_profile profiles
                          (profile_vendor_id override_profile)
                          (profile_device_id override_profile) override_chipset;
                        override_match =
                          (case first_try of
                             None \<Rightarrow> find_wifi_profile profiles
                               (profile_vendor_id override_profile)
                               (profile_device_id override_profile) []
                           | Some m \<Rightarrow> Some m)
                    in case override_match of Some m \<Rightarrow> Some m | None \<Rightarrow> profile)
              else profile))"

text \<open>Lines 1013 to 1024.\<close>

definition apply_profile :: "WifiCardProfile option \<Rightarrow> WifiCardInfo \<Rightarrow> WifiCardInfo" where
  "apply_profile profile wcard =
     (case profile of
        None \<Rightarrow> wcard
      | Some p \<Rightarrow>
          wcard\<lparr>ci_card_name := (if ci_card_name wcard = [] then name p else ci_card_name wcard),
               ci_power_mode := power_mode p,
               ci_power_lowest := to_string_if (lowest_mw p),
               ci_power_low := to_string_if (low_mw p),
               ci_power_mid := to_string_if (mid_mw p),
               ci_power_high := to_string_if (high_mw p),
               ci_power_min := to_string_if (min_mw p),
               ci_power_max := to_string_if (max_mw p)\<rparr>)"

text \<open>Lines 1026 to 1034.\<close>

definition apply_tx_override :: "WifiTxPowerOverride option \<Rightarrow> WifiCardInfo \<Rightarrow> WifiCardInfo" where
  "apply_tx_override tx_it wcard =
     (case tx_it of
        None \<Rightarrow> wcard
      | Some e \<Rightarrow>
          wcard\<lparr>ci_tx_power := tx_power e,
               ci_tx_power_high := tx_power_high e,
               ci_tx_power_low := tx_power_low e,
               ci_card_name := (if card_name e \<noteq> [] then card_name e else ci_card_name wcard),
               ci_power_level := power_level e\<rparr>)"

text \<open>Lines 1040 to 1055.\<close>

definition selected_mw :: "WifiCardProfile \<Rightarrow> string \<Rightarrow> int" where
  "selected_mw p level =
     (if level = ''LOWEST'' then lowest_mw p
      else if level = ''LOW'' then low_mw p
      else if level = ''MID'' then mid_mw p
      else if level = ''HIGH'' then high_mw p
      else 0)"

definition apply_power_level ::
  "WifiCardProfile option \<Rightarrow> bool \<Rightarrow> WifiCardInfo \<Rightarrow> WifiCardInfo" where
  "apply_power_level profile profile_fixed wcard =
     (case profile of
        None \<Rightarrow> wcard
      | Some p \<Rightarrow>
          (if ci_power_level wcard \<noteq> [] \<and> \<not> profile_fixed
           then (if selected_mw p (ci_power_level wcard) > 0
                 then wcard\<lparr>ci_tx_power := to_string (selected_mw p (ci_power_level wcard))\<rparr>
                 else wcard)
           else wcard))"

text \<open>Lines 1062 to 1067.\<close>

definition backfill_tx_high_low :: "WifiCardProfile option \<Rightarrow> WifiCardInfo \<Rightarrow> WifiCardInfo" where
  "backfill_tx_high_low profile wcard =
     (case profile of
        None \<Rightarrow> wcard
      | Some p \<Rightarrow>
          (let c1 = (if ci_tx_power_high wcard = [] \<and> high_mw p > 0
                     then wcard\<lparr>ci_tx_power_high := to_string (high_mw p)\<rparr> else wcard);
               c2 = (if ci_tx_power_low c1 = [] \<and> lowest_mw p > 0
                     then c1\<lparr>ci_tx_power_low := to_string (lowest_mw p)\<rparr> else c1)
           in c2))"

definition build_wifi_card ::
  "string \<Rightarrow> sysfs_probe \<Rightarrow> (string \<times> string) list \<Rightarrow>
   (string \<times> WifiTxPowerOverride) list \<Rightarrow> WifiCardProfile list \<Rightarrow> WifiCardInfo" where
  "build_wifi_card interface_name probe overrides tx_overrides profiles =
     (let card0 = probed_card interface_name probe;
          card1 = apply_type_override (map_of overrides interface_name) card0;
          tx_it = map_of tx_overrides interface_name;
          profile = select_profile profiles card1 tx_it;
          profile_fixed =
            (case profile of None \<Rightarrow> False | Some p \<Rightarrow> to_upper (power_mode p) = ''FIXED'');
          card2 = apply_profile profile card1;
          card3 = apply_tx_override tx_it card2;
          card4 = (if ci_power_level card3 \<noteq> []
                   then card3\<lparr>ci_power_level := to_upper (ci_power_level card3)\<rparr> else card3);
          card5 = apply_power_level profile profile_fixed card4;
          card6 = (if profile_fixed
                   then card5\<lparr>ci_power_level := ''FIXED'', ci_tx_power := []\<rparr> else card5)
      in backfill_tx_high_low profile card6)"

text \<open>
  The profile that \<open>build_wifi_card\<close> resolves for an interface: the value of its local
  \<open>profile\<close> at line 1011.
\<close>

definition resolved_profile ::
  "string \<Rightarrow> sysfs_probe \<Rightarrow> (string \<times> string) list \<Rightarrow>
   (string \<times> WifiTxPowerOverride) list \<Rightarrow> WifiCardProfile list \<Rightarrow> WifiCardProfile option" where
  "resolved_profile interface_name probe overrides tx_overrides profiles =
     select_profile profiles
       (apply_type_override (map_of overrides interface_name) (probed_card interface_name probe))
       (map_of tx_overrides interface_name)"

text \<open>
  \<open>wifi_interfaces\<close> lists the entries of \<open>/sys/class/net\<close> that have a \<open>phy80211\<close>
  node, in directory order, each with its probe; it is empty when the directory
  cannot be read.
\<close>

definition detect_wifi_cards ::
  "(string \<times> string) list \<Rightarrow> (string \<times> WifiTxPowerOverride) list \<Rightarrow>
   WifiCardProfile list \<Rightarrow> world \<Rightarrow> WifiCardInfo list" where
  "detect_wifi_cards overrides tx_overrides profiles w =
     map (\<lambda>(iface, probe). build_wifi_card iface probe overrides tx_overrides profiles)
       (wifi_interfaces w)"

definition refresh_wifi_info :: "world \<Rightarrow> world" where
  "refresh_wifi_info w =
     (let overrides = load_overrides w;
          tx_overrides = load_tx_power_overrides w;
          profiles = load_wifi_card_profiles (cards_file w)
      in w\<lparr>g_wifi_cards := detect_wifi_cards overrides tx_overrides profiles w,
            g_wifi_initialized := True\<rparr>)"

definition wifi_cards :: "world \<Rightarrow> WifiCardInfo list \<times> world" where
  "wifi_cards w =
     (let w1 = (if \<not> g_wifi_initialized w then refresh_wifi_info w else w)
      in (g_wifi_cards w1, w1))"

section \<open>Request dispatcher\<close>

definition card_json :: "WifiCardInfo \<Rightarrow> string" where
  \<open>card_json wcard =
     ''{"interface":"'' @ json_escape (ci_interface_name wcard) @ ''"'' @
     '',"driver":"'' @ json_escape (ci_driver_name wcard) @ ''"'' @
     '',"phy_index":'' @ to_string (ci_phy_index wcard) @
     '',"mac":"'' @ json_escape (ci_mac wcard) @ ''"'' @
     '',"vendor_id":"'' @ json_escape (ci_vendor_id wcard) @ ''"'' @
     '',"device_id":"'' @ json_escape (ci_device_id wcard) @ ''"'' @
     '',"detected_type":"'' @ json_escape (ci_detected_type wcard) @ ''"'' @
     '',"override_type":"'' @ json_escape (ci_override_type wcard) @ ''"'' @
     '',"type":"'' @ json_escape (ci_effective_type wcard) @ ''"'' @
     '',"tx_power":"'' @ json_escape (ci_tx_power wcard) @ ''"'' @
     '',"tx_power_high":"'' @ json_escape (ci_tx_power_high wcard) @ ''"'' @
     '',"tx_power_low":"'' @ json_escape (ci_tx_power_low wcard) @ ''"'' @
     '',"card_name":"'' @ json_escape (ci_card_name wcard) @ ''"'' @
     '',"power_mode":"'' @ json_escape (ci_power_mode wcard) @ ''"'' @
     '',"power_level":"'' @ json_escape (ci_power_level wcard) @ ''"'' @
     '',"power_lowest":"'' @ json_escape (ci_power_lowest wcard) @ ''"'' @
     '',"power_low":"'' @ json_escape (ci_power_low wcard) @ ''"'' @
     '',"power_mid":"'' @ json_escape (ci_power_mid wcard) @ ''"'' @
     '',"power_high":"'' @ json_escape (ci_power_high wcard) @ ''"'' @
     '',"power_min":"'' @ json_escape (ci_power_min wcard) @ ''"'' @
     '',"power_max":"'' @ json_escape (ci_power_max wcard) @ ''"'' @
     '',"disabled":'' @ (if ci_disabled wcard then ''true'' else ''false'') @
     ''}''\<close>

fun join_cards :: "string list \<Rightarrow> string" where
  "join_cards [] = []"
| "join_cards [c] = c"
| "join_cards (c # cs) = c @ '','' @ join_cards cs"

definition append_cards_json :: "WifiCardInfo list \<Rightarrow> string" where
  "append_cards_json cards = ''['' @ join_cards (map card_json cards) @ '']''"

text \<open>
  A request line is read through \<open>extract_string_field\<close>; a request is given by what
  each of these calls returns.
\<close>

record wifi_update_request =
  req_action :: "string option"
  req_interface :: "string option"
  req_override_type :: "string option"
  req_tx_power :: "string option"
  req_tx_power_high :: "string option"
  req_tx_power_low :: "string option"
  req_card_name :: "string option"
  req_power_level :: "string option"
  req_profile_vendor_id :: "string option"
  req_profile_device_id :: "string option"
  req_profile_chipset :: "string option"

text \<open>Lines 1172 to 1180.\<close>

definition set_type_override ::
  "wifi_update_request \<Rightarrow> string \<Rightarrow> (string \<times> string) list \<Rightarrow> world \<Rightarrow> bool \<times> world" where
  "set_type_override req iface overrides w =
     (case req_override_type req of
        None \<Rightarrow> (True, w)
      | Some t \<Rightarrow>
          write_overrides
            (if t = [] \<or> equal_after_uppercase t ''AUTO''
             then AList.delete iface overrides else AList.update iface t overrides) w)"

text \<open>Lines 1187 to 1225: the merge of the request into the record of the interface.\<close>

definition merge_tx_power_fields ::
  "wifi_update_request \<Rightarrow> WifiTxPowerOverride \<Rightarrow> WifiTxPowerOverride" where
  "merge_tx_power_fields req entry0 =
     (let e1 = (case req_tx_power req of Some v \<Rightarrow> entry0\<lparr>tx_power := v\<rparr> | None \<Rightarrow> entry0);
          e2 = (case req_tx_power_high req of Some v \<Rightarrow> e1\<lparr>tx_power_high := v\<rparr> | None \<Rightarrow> e1);
          e3 = (case req_tx_power_low req of Some v \<Rightarrow> e2\<lparr>tx_power_low := v\<rparr> | None \<Rightarrow> e2);
          e4 = (case req_card_name req of Some v \<Rightarrow> e3\<lparr>card_name := v\<rparr> | None \<Rightarrow> e3);
          e5 = (case req_power_level req of
                  None \<Rightarrow> e4
                | Some l \<Rightarrow>
                    (if l = [] \<or> equal_after_uppercase l ''AUTO''
                     then e4\<lparr>power_level := []\<rparr>
                     else e4\<lparr>power_level := to_upper (trim_copy l)\<rparr>)
                    \<lparr>tx_power := [], tx_power_high := [], tx_power_low := []\<rparr>);
          e6 = (if req_profile_vendor_id req \<noteq> None \<or> req_profile_device_id req \<noteq> None \<or>
                   req_profile_chipset req \<noteq> None
                then (let vendor_value = value_or (req_profile_vendor_id req) [];
                          device_value = value_or (req_profile_device_id req) [];
                          chipset_value = value_or (req_profile_chipset req) []
                      in if vendor_value = [] \<or> device_value = []
                         then e5\<lparr>profile_vendor_id := [], profile_device_id := [],
                                 profile_chipset := []\<rparr>
                         else e5\<lparr>profile_vendor_id := normalize_id vendor_value,
                                 profile_device_id := normalize_id device_value,
                                 profile_chipset := normalize_chipset chipset_value\<rparr>)
                else e5)
      in e6)"

definition has_tx_power_request :: "wifi_update_request \<Rightarrow> bool" where
  "has_tx_power_request req \<longleftrightarrow>
     req_tx_power req \<noteq> None \<or> req_tx_power_high req \<noteq> None \<or>
     req_tx_power_low req \<noteq> None \<or> req_card_name req \<noteq> None \<or>
     req_power_level req \<noteq> None \<or> req_profile_vendor_id req \<noteq> None \<or>
     req_profile_device_id req \<noteq> None \<or> req_profile_chipset req \<noteq> None"

text \<open>Lines 1186 to 1228: the store handed to \<open>write_tx_power_overrides\<close>.\<close>

definition merged_tx_overrides ::
  "wifi_update_request \<Rightarrow> string \<Rightarrow> (string \<times> WifiTxPowerOverride) list \<Rightarrow>
   (string \<times> WifiTxPowerOverride) list" where
  "merged_tx_overrides req iface tx_overrides =
     (let entry = merge_tx_power_fields req
                    (value_or (map_of tx_overrides iface) empty_tx_override)
      in if \<not> has_tx_power_values entry then AList.delete iface tx_overrides
         else AList.update iface entry tx_overrides)"

definition set_tx_power_override ::
  "wifi_update_request \<Rightarrow> string \<Rightarrow> (string \<times> WifiTxPowerOverride) list \<Rightarrow> world \<Rightarrow>
   bool \<times> world" where
  "set_tx_power_override req iface tx_overrides w =
     (if has_tx_power_request req
      then write_tx_power_overrides (merged_tx_overrides req iface tx_overrides) w
      else (True, w))"

text \<open>
  The branches of \<open>handle_wifi_update\<close> on the action: the value of \<open>ok\<close> and the files
  afterwards. In \<open>set\<close> both writes are attempted; in \<open>clear\<close> the \<open>&&\<close> skips the
  second write when the first fails.
\<close>

definition apply_wifi_update :: "string \<Rightarrow> wifi_update_request \<Rightarrow> world \<Rightarrow> bool \<times> world" where
  "apply_wifi_update action req w =
     (let overrides = load_overrides w;
          tx_overrides = load_tx_power_overrides w
      in if action = ''set''
         then (case req_interface req of
                 None \<Rightarrow> (False, w)
               | Some iface \<Rightarrow>
                   (if iface = [] then (False, w)
                    else (let (ok1, w1) = set_type_override req iface overrides w;
                              (ok2, w2) = set_tx_power_override req iface tx_overrides w1
                          in (ok2 \<and> ok1, w2))))
         else if action = ''clear''
         then (let (overrides1, tx_overrides1) =
                     (case req_interface req of
                        None \<Rightarrow> ([], [])
                      | Some iface \<Rightarrow>
                          (if iface \<noteq> []
                           then (AList.delete iface overrides, AList.delete iface tx_overrides)
                           else ([], [])));
                   (ok1, w1) = write_overrides overrides1 w
               in if ok1 then write_tx_power_overrides tx_overrides1 w1 else (False, w1))
         else if action = ''refresh'' \<or> action = ''detect'' then (True, w)
         else (False, w))"

definition handle_wifi_update :: "wifi_update_request \<Rightarrow> world \<Rightarrow> string \<times> world" where
  \<open>handle_wifi_update req w =
     (let action = value_or (req_action req) ''refresh'';
          (ok, w1) = apply_wifi_update action req w;
          w2 = (if ok then refresh_wifi_info w1 else w1);
          head = ''{"type":"sysutil.wifi.update.response","ok":'' @
                 (if ok then ''true'' else ''false'') @
                 '',"action":"'' @ json_escape action @ ''"''
      in if ok
         then (let (cards, w3) = wifi_cards w2
               in (head @ '',"cards":'' @ append_cards_json cards @ ''}\<newline>'', w3))
         else (head @ ''}\<newline>'', w2))\<close>

text \<open>
  \<open>sysutil.link.control\<close>: the fields of the request as the extraction calls return
  them, and the reply of the peer as \<open>extract_bool_field\<close> and \<open>extract_string_field\<close>
  read it. \<open>send_openhd_control\<close> is a parameter: it maps the line sent to the reply,
  or to \<open>None\<close> when there is no response. The second component of the result is the
  line handed to \<open>send_openhd_control\<close>, or \<open>None\<close> when it is not called. The log
  lines on \<open>std::cerr\<close> are left out.
\<close>

record link_control_request =
  lc_interface :: "string option"
  lc_frequency_mhz :: "int option"
  lc_channel_width_mhz :: "int option"
  lc_mcs_index :: "int option"
  lc_tx_power_mw :: "int option"
  lc_tx_power_index :: "int option"
  lc_power_level :: "string option"

record control_reply =
  reply_ok :: "bool option"
  reply_message :: "string option"

definition link_control_has_value :: "link_control_request \<Rightarrow> bool" where
  "link_control_has_value req \<longleftrightarrow>
     (case lc_interface req of Some i \<Rightarrow> i \<noteq> [] | None \<Rightarrow> False) \<or>
     lc_frequency_mhz req \<noteq> None \<or> lc_channel_width_mhz req \<noteq> None \<or>
     lc_mcs_index req \<noteq> None \<or> lc_tx_power_mw req \<noteq> None \<or>
     lc_tx_power_index req \<noteq> None \<or>
     (case lc_power_level req of Some l \<Rightarrow> l \<noteq> [] | None \<Rightarrow> False)"

definition int_field :: "string \<Rightarrow> int option \<Rightarrow> string" where
  \<open>int_field key v =
     (case v of None \<Rightarrow> [] | Some i \<Rightarrow> '',"'' @ key @ ''":'' @ to_string i)\<close>

definition openhd_link_control_line :: "link_control_request \<Rightarrow> string" where
  \<open>openhd_link_control_line req =
     ''{"type":"openhd.link.control"'' @
     (case lc_interface req of
        Some i \<Rightarrow> (if i \<noteq> [] then '',"interface":"'' @ json_escape i @ ''"'' else [])
      | None \<Rightarrow> []) @
     int_field ''frequency_mhz'' (lc_frequency_mhz req) @
     int_field ''channel_width_mhz'' (lc_channel_width_mhz req) @
     int_field ''mcs_index'' (lc_mcs_index req) @
     int_field ''tx_power_mw'' (lc_tx_power_mw req) @
     int_field ''tx_power_index'' (lc_tx_power_index req) @
     (case lc_power_level req of
        Some l \<Rightarrow>
          (if trim_copy l \<noteq> [] then '',"power_level":"'' @ json_escape (trim_copy l) @ ''"''
           else [])
      | None \<Rightarrow> []) @
     ''}\<newline>''\<close>

definition link_control_response :: "bool \<Rightarrow> string \<Rightarrow> string" where
  \<open>link_control_response ok message =
     ''{"type":"sysutil.link.control.response","ok":'' @
     (if ok then ''true'' else ''false'') @
     (if message \<noteq> [] then '',"message":"'' @ json_escape message @ ''"'' else []) @
     ''}\<newline>''\<close>

definition handle_link_control_request ::
  "link_control_request \<Rightarrow> (string \<Rightarrow> control_reply option) \<Rightarrow> string \<times> string option" where
  "handle_link_control_request req send_openhd_control =
     (if \<not> link_control_has_value req
      then (link_control_response False ''No RF values provided.'', None)
      else if lc_channel_width_mhz req = Some 40
      then (link_control_response False ''40 MHz channel width is disabled.'', None)
      else (let request = openhd_link_control_line req
            in case send_openhd_control request of
                 None \<Rightarrow>
                   (link_control_response False ''OpenHD control socket not available.'',
                    Some request)
               | Some response \<Rightarrow>
                   (let ok = value_or (reply_ok response) False;
                        message0 = value_or (reply_message response) [];
                        message = (if message0 = [] \<and> \<not> ok
                                   then ''OpenHD rejected the RF update.'' else message0)
                    in (link_control_response ok message, Some request))))"

section \<open>Auxiliary notions for the proofs\<close>


text \<open>
  An exact match as the loop of \<open>find_wifi_profile\<close> tests it: the branch is only
  reached for a profile whose chipset is not empty.
\<close>

definition exact_nonempty_match :: "string \<Rightarrow> string \<Rightarrow> string \<Rightarrow> WifiCardProfile \<Rightarrow> bool" where
  "exact_nonempty_match vendor device chip p \<longleftrightarrow>
     vendor_device_matches vendor device p \<and> chipset p \<noteq> [] \<and>
     equal_after_uppercase (chipset p) chip"

text \<open>The first of two optional results that is present.\<close>

definition or_else :: "'a option \<Rightarrow> 'a option \<Rightarrow> 'a option" where
  "or_else a b = (case a of Some x \<Rightarrow> Some x | None \<Rightarrow> b)"

text \<open>
  The figure the specification attaches to a symbolic level: \<open>LOWEST\<close> to \<open>lowest\<close>,
  \<open>LOW\<close> to \<open>low\<close>, \<open>MID\<close> to \<open>mid\<close>, \<open>HIGH\<close> to \<open>high\<close>.
\<close>

definition level_figure :: "WifiCardProfile \<Rightarrow> string \<Rightarrow> int option" where
  "level_figure p level =
     (if level = ''LOWEST'' then Some (lowest_mw p)
      else if level = ''LOW'' then Some (low_mw p)
      else if level = ''MID'' then Some (mid_mw p)
      else if level = ''HIGH'' then Some (high_mw p)
      else None)"

text \<open>
  Names that survive the text format of the power-override file. An interface name is
  plain when it is not empty, has no white space at either end, does not start with
  \<open>#\<close> and contains no \<open>=\<close>, no \<open>.\<close> and no newline. A value is plain when it is not
  empty, has no white space at either end and contains no newline.
\<close>

definition plain_interface_name :: "string \<Rightarrow> bool" where
  "plain_interface_name i \<longleftrightarrow>
     i \<noteq> [] \<and> \<not> isspace (hd i) \<and> \<not> isspace (last i) \<and> hd i \<noteq> CHR ''#'' \<and>
     CHR ''='' \<notin> set i \<and> CHR ''.'' \<notin> set i \<and> CHR 0x0A \<notin> set i"

definition plain_value :: "string \<Rightarrow> bool" where
  "plain_value v \<longleftrightarrow>
     v \<noteq> [] \<and> \<not> isspace (hd v) \<and> \<not> isspace (last v) \<and> CHR 0x0A \<notin> set v"

text \<open>The comment line that \<open>write_tx_power_overrides\<close> puts first, without its newline.\<close>

definition tx_power_header :: string where
  "tx_power_header = ''# OpenHD SysUtils Wi-Fi TX power overrides''"

section \<open>Example inputs\<close>


definition example_onboard_probe :: sysfs_probe where
  "example_onboard_probe =
     \<lparr>probe_driver_name = ''brcmfmac'', probe_phy_index = 0,
      probe_address = Some ''b8:27:eb:00:00:01\<newline>'',
      probe_vendor_id = ''0x02D0'', probe_device_id = ''0xA9A6''\<rparr>"

definition example_usb_probe :: sysfs_probe where
  "example_usb_probe =
     \<lparr>probe_driver_name = ''rtl88x2eu_ohd'', probe_phy_index = 1,
      probe_address = Some ''00:e0:4c:00:00:02\<newline>'',
      probe_vendor_id = ''0x0BDA'', probe_device_id = ''0xA81A''\<rparr>"

definition example_level_store :: "(string \<times> WifiTxPowerOverride) list" where
  "example_level_store =
     [(''wlan0'', empty_tx_override\<lparr>tx_power := ''100'', power_level := ''high''\<rparr>)]"

definition example_request :: wifi_update_request where
  "example_request =
     \<lparr>req_action = Some ''set'', req_interface = Some ''wlan0'', req_override_type = None,
      req_tx_power = Some ''500'', req_tx_power_high = None, req_tx_power_low = None,
      req_card_name = None, req_power_level = Some '' mid'', req_profile_vendor_id = None,
      req_profile_device_id = None, req_profile_chipset = None\<rparr>"

definition example_world :: world where
  "example_world =
     \<lparr>overrides_file = None,
      tx_power_file = Some ''wlan0.tx_power_high=900\<newline>wlan0.card_name=Stick\<newline>'',
      overrides_writable = True, tx_power_writable = True, files_written = [],
      overrides_rank = (\<lambda>key. 0), tx_power_rank = (\<lambda>key. 0),
      cards_file = None, wifi_interfaces = [(''wlan0'', example_usb_probe)],
      g_wifi_cards = [], g_wifi_initialized = False\<rparr>"

definition example_level_world :: world where
  "example_level_world =
     example_world\<lparr>tx_power_file := Some ''wlan0.power_level=high\<newline>wlan0.tx_power=100\<newline>''\<rparr>"

definition example_catalog :: "card_object list" where
  "example_catalog =
     [empty_card_object
        \<lparr>obj_vendor_id := Some ''0x0BDA'', obj_device_id := Some ''0xA81A'',
         obj_name := Some ''LB-Link 8812eu'', obj_lowest := Some 25, obj_high := Some 800\<rparr>]"

definition example_link_request :: link_control_request where
  "example_link_request =
     \<lparr>lc_interface = Some ''wlan0'', lc_frequency_mhz = Some 5180,
      lc_channel_width_mhz = Some 40, lc_mcs_index = Some 2, lc_tx_power_mw = None,
      lc_tx_power_index = None, lc_power_level = None\<rparr>"

definition example_peer :: "string \<Rightarrow> control_reply option" where
  "example_peer line = Some \<lparr>reply_ok = Some True, reply_message = None\<rparr>"


section \<open>Facts about the text utilities\<close>

lemma isspace_code: "isspace c \<Longrightarrow> (of_char c :: nat) \<le> 32"
  by (auto simp: isspace_def)

lemma toupper_lower:
  assumes "97 \<le> (of_char c :: nat)" and "(of_char c :: nat) \<le> 122"
  shows "(of_char (toupper c) :: nat) = of_char c - 32"
proof -
  have "(of_char c :: nat) - 32 < 256" using assms by arith
  then show ?thesis using assms by (simp add: toupper_def)
qed

lemma toupper_other:
  "\<not> (97 \<le> (of_char c :: nat) \<and> (of_char c :: nat) \<le> 122) \<Longrightarrow> toupper c = c"
  by (auto simp: toupper_def)

lemma toupper_idem: "toupper (toupper c) = toupper c"
proof (cases "97 \<le> (of_char c :: nat) \<and> (of_char c :: nat) \<le> 122")
  case False
  then show ?thesis by (simp add: toupper_other)
next
  case True
  then have "(of_char (toupper c) :: nat) = of_char c - 32"
    by (simp add: toupper_lower)
  then have "\<not> (97 \<le> (of_char (toupper c) :: nat) \<and> (of_char (toupper c) :: nat) \<le> 122)"
    using True by arith
  then show ?thesis by (rule toupper_other)
qed

lemma isspace_toupper: "isspace (toupper c) = isspace c"
proof (cases "97 \<le> (of_char c :: nat) \<and> (of_char c :: nat) \<le> 122")
  case False
  then show ?thesis by (simp add: toupper_other)
next
  case True
  have ns: "\<not> isspace c"
    using True isspace_code [of c] by arith
  have "(of_char (toupper c) :: nat) = of_char c - 32"
    using True by (simp add: toupper_lower)
  then have "\<not> isspace (toupper c)"
    using True isspace_code [of "toupper c"] by arith
  with ns show ?thesis by simp
qed

lemma trim_copy_hd: "trim_copy s \<noteq> [] \<Longrightarrow> \<not> isspace (hd (trim_copy s))"
proof -
  assume ne: "trim_copy s \<noteq> []"
  let ?d = "dropWhile isspace s"
  let ?e = "dropWhile isspace (rev ?d)"
  have e_ne: "?e \<noteq> []" using ne by (simp add: trim_copy_def)
  have d_ne: "?d \<noteq> []"
  proof
    assume d: "?d = []"
    have "?e = []" unfolding d by simp
    with e_ne show False by simp
  qed
  obtain zs where zs: "rev ?d = zs @ ?e"
    by (metis takeWhile_dropWhile_id)
  then have "?d = rev ?e @ rev zs" by (metis rev_append rev_rev_ident)
  moreover have "rev ?e \<noteq> []" using e_ne by simp
  ultimately have "hd ?d = hd (rev ?e)" by (metis hd_append2)
  moreover have "\<not> isspace (hd ?d)" using d_ne by (rule hd_dropWhile)
  ultimately show ?thesis by (simp add: trim_copy_def)
qed

lemma hex_table: "\<forall>c \<in> set ''0123456789abcdefABCDEF''. is_upper_hex (toupper c)"
  by code_simp

lemma toupper_hex: "is_hex c \<Longrightarrow> is_upper_hex (toupper c)"
  using hex_table by (simp only: is_hex_def)


lemma trim_copy_Nil: "trim_copy [] = []"
  by (simp add: trim_copy_def)

lemma trim_copy_fixed:
  assumes "s \<noteq> []" and "\<not> isspace (hd s)" and "\<not> isspace (last s)"
  shows "trim_copy s = s"
proof -
  have a: "dropWhile isspace s = s"
    using assms(1,2) by (simp add: dropWhile_eq_self_iff)
  have "hd (rev s) = last s"
    using assms(1) by (simp add: hd_rev)
  then have b: "dropWhile isspace (rev s) = rev s"
    using assms(3) by (simp add: dropWhile_eq_self_iff)
  show ?thesis by (simp add: trim_copy_def a b)
qed

lemma trim_copy_last: "trim_copy s \<noteq> [] \<Longrightarrow> \<not> isspace (last (trim_copy s))"
proof -
  assume ne: "trim_copy s \<noteq> []"
  let ?e = "dropWhile isspace (rev (dropWhile isspace s))"
  have e_ne: "?e \<noteq> []" using ne by (simp add: trim_copy_def)
  then have "\<not> isspace (hd ?e)" by (rule hd_dropWhile)
  then show ?thesis using e_ne by (simp add: trim_copy_def last_rev)
qed

lemma trim_copy_idem: "trim_copy (trim_copy s) = trim_copy s"
proof (cases "trim_copy s = []")
  case True
  then show ?thesis by (simp add: trim_copy_Nil)
next
  case False
  then show ?thesis
    by (intro trim_copy_fixed trim_copy_hd trim_copy_last)
qed

lemma to_upper_idem: "to_upper (to_upper s) = to_upper s"
  by (simp add: to_upper_def toupper_idem)

lemma last_id_body:
  "id_body v \<noteq> [] \<Longrightarrow> last (id_body v) = last v"
  by (auto simp: id_body_def)

lemma normalize_id_unfold:
  "normalize_id x = (if trim_copy x = [] then [] else ''0x'' @ to_upper (id_body (trim_copy x)))"
  by (simp add: normalize_id_def id_body_def Let_def)

lemma trim_copy_prefixed:
  assumes "trim_copy x \<noteq> []"
  shows "trim_copy (''0x'' @ to_upper (id_body (trim_copy x))) = ''0x'' @ to_upper (id_body (trim_copy x))"
proof (rule trim_copy_fixed)
  let ?b = "id_body (trim_copy x)"
  show "''0x'' @ to_upper ?b \<noteq> []" by simp
  show "\<not> isspace (hd (''0x'' @ to_upper ?b))" by (simp add: isspace_def)
  show "\<not> isspace (last (''0x'' @ to_upper ?b))"
  proof (cases "?b = []")
    case True
    then show ?thesis by (simp add: to_upper_def isspace_def)
  next
    case False
    then have "last (to_upper ?b) = toupper (last (trim_copy x))"
      by (simp add: to_upper_def last_map last_id_body)
    moreover have "\<not> isspace (last (trim_copy x))"
      using assms by (rule trim_copy_last)
    ultimately show ?thesis
      using False by (simp add: to_upper_def isspace_toupper)
  qed
qed

lemma normalize_id_idem: "normalize_id (normalize_id x) = normalize_id x"
proof (cases "trim_copy x = []")
  case True
  then show ?thesis by (simp add: normalize_id_unfold trim_copy_Nil)
next
  case False
  let ?b = "to_upper (id_body (trim_copy x))"
  have y: "normalize_id x = ''0x'' @ ?b" using False by (simp add: normalize_id_unfold)
  have t: "trim_copy (''0x'' @ ?b) = ''0x'' @ ?b" using False by (rule trim_copy_prefixed)
  have b: "id_body (''0x'' @ ?b) = ?b"
    by (simp add: id_body_def starts_with_def)
  have "normalize_id (''0x'' @ ?b) = ''0x'' @ to_upper ?b"
    unfolding normalize_id_unfold [of "''0x'' @ ?b"] t b by simp
  then show ?thesis by (simp only: y to_upper_idem)
qed

section \<open>Claims about identifier normalisation\<close>

text \<open>
  C3, as stated, fails: the result of \<open>normalize_id\<close> is not always \<open>0x\<close> and then four
  or more upper-case hexadecimal digits. A blank input gives the empty string (the
  explicit guard of the function), a short input gives fewer than four digits, and
  characters that are not hexadecimal digits are kept.
\<close>

theorem C3_normalize_id_form_counterexample:
  "normalize_id '' '' = [] \<and> \<not> canonical_id (normalize_id '' '')
   \<and> normalize_id ''1'' = ''0x1'' \<and> \<not> canonical_id (normalize_id ''1'')
   \<and> normalize_id ''wlan'' = ''0xWLAN'' \<and> \<not> canonical_id (normalize_id ''wlan'')"
  by code_simp

text \<open>
  C3, amended: \<open>normalize_id\<close> is idempotent on every string. Its result is empty
  exactly when the input is empty or blank; otherwise it is \<open>0x\<close> followed by the
  upper-cased rest of the trimmed input (one leading \<open>0x\<close> or \<open>0X\<close> removed), which
  upper-casing leaves unchanged; and it has the canonical form (\<open>0x\<close> and four or more
  upper-case hexadecimal digits) whenever that rest is four or more hexadecimal digits.
\<close>

theorem C3_normalize_id_idempotent_and_form:
  "normalize_id (normalize_id x) = normalize_id x
   \<and> (normalize_id x = [] \<longleftrightarrow> trim_copy x = [])
   \<and> (trim_copy x \<noteq> [] \<longrightarrow>
        normalize_id x = ''0x'' @ to_upper (id_body (trim_copy x))
        \<and> to_upper (drop 2 (normalize_id x)) = drop 2 (normalize_id x))
   \<and> (4 \<le> length (id_body (trim_copy x)) \<and> list_all is_hex (id_body (trim_copy x))
        \<longrightarrow> canonical_id (normalize_id x))"
proof (intro conjI impI)
  show "normalize_id (normalize_id x) = normalize_id x" by (rule normalize_id_idem)
  show "normalize_id x = [] \<longleftrightarrow> trim_copy x = []" by (simp add: normalize_id_unfold)
  show "normalize_id x = ''0x'' @ to_upper (id_body (trim_copy x))" if "trim_copy x \<noteq> []"
    using that by (simp add: normalize_id_unfold)
  show "to_upper (drop 2 (normalize_id x)) = drop 2 (normalize_id x)" if "trim_copy x \<noteq> []"
    using that by (simp add: normalize_id_unfold to_upper_idem)
  show "canonical_id (normalize_id x)"
    if h: "4 \<le> length (id_body (trim_copy x)) \<and> list_all is_hex (id_body (trim_copy x))"
  proof -
    have "id_body [] = []" by (simp add: id_body_def)
    with h have ne: "trim_copy x \<noteq> []" by auto
    have "list_all is_upper_hex (to_upper (id_body (trim_copy x)))"
      using h by (simp add: to_upper_def list_all_iff toupper_hex)
    then show ?thesis
      using h ne by (simp add: canonical_id_def normalize_id_unfold to_upper_def)
  qed
qed

theorem C3_normalize_id_witness:
  "4 \<le> length (id_body (trim_copy '' 0X0bda '')) \<and> list_all is_hex (id_body (trim_copy '' 0X0bda ''))
   \<and> normalize_id (normalize_id '' 0X0bda '') = normalize_id '' 0X0bda ''
   \<and> normalize_id '' 0X0bda '' = ''0x0BDA''
   \<and> canonical_id (normalize_id '' 0X0bda '')"
proof -
  have h: "4 \<le> length (id_body (trim_copy '' 0X0bda '')) \<and> list_all is_hex (id_body (trim_copy '' 0X0bda ''))"
    by code_simp
  have v: "normalize_id '' 0X0bda '' = ''0x0BDA''"
    by code_simp
  have "normalize_id (normalize_id '' 0X0bda '') = normalize_id '' 0X0bda ''"
    and "canonical_id (normalize_id '' 0X0bda '')"
    using C3_normalize_id_idempotent_and_form [of "'' 0X0bda ''"] h by blast+
  with h v show ?thesis by blast
qed

section \<open>Facts about the profile catalog\<close>

















text \<open>
  C2, as stated, fails: the profile-pin fields are not written first. A record with a
  card name and a pinned vendor gets its \<open>card_name\<close> line before its
  \<open>profile_vendor_id\<close> line, which is not the order of the specification.
\<close>

theorem C2_field_order_counterexample:
  "tx_entry_lines ''wlan0''
     (empty_tx_override\<lparr>card_name := ''A'', profile_vendor_id := ''0x0BDA''\<rparr>)
     = [''wlan0.card_name=A\<newline>'', ''wlan0.profile_vendor_id=0x0BDA\<newline>'']
   \<and> lines_in_order spec_field_order ''wlan0''
     (empty_tx_override\<lparr>card_name := ''A'', profile_vendor_id := ''0x0BDA''\<rparr>)
     = [''wlan0.profile_vendor_id=0x0BDA\<newline>'', ''wlan0.card_name=A\<newline>'']
   \<and> tx_entry_lines ''wlan0''
        (empty_tx_override\<lparr>card_name := ''A'', profile_vendor_id := ''0x0BDA''\<rparr>)
     \<noteq> lines_in_order spec_field_order ''wlan0''
        (empty_tx_override\<lparr>card_name := ''A'', profile_vendor_id := ''0x0BDA''\<rparr>)"
  by code_simp

lemma tx_entry_lines_order:
  "tx_entry_lines iface values = lines_in_order source_field_order iface values"
  by (simp add: tx_entry_lines_def lines_in_order_def source_field_order_def)

lemma lines_in_order_empty:
  "\<not> has_tx_power_values values \<Longrightarrow> lines_in_order source_field_order iface values = []"
  by (simp add: has_tx_power_values_def lines_in_order_def source_field_order_def)

text \<open>
  C2, amended: \<open>write_tx_power_overrides\<close> writes each present field of a record as its
  own line in the fixed order \<open>card_name\<close>, \<open>power_level\<close>, then \<open>profile_vendor_id\<close>,
  \<open>profile_device_id\<close>, \<open>profile_chipset\<close>, then \<open>tx_power\<close>, \<open>tx_power_high\<close>,
  \<open>tx_power_low\<close>; the order is the same for every record, and the file is the
  header followed by these lines for each entry of the store.
\<close>

theorem C2_field_order:
  "tx_entry_lines iface values = lines_in_order source_field_order iface values
   \<and> tx_power_overrides_text data =
       ''# OpenHD SysUtils Wi-Fi TX power overrides\<newline>'' @
       concat (map (\<lambda>(iface, values). concat (lines_in_order source_field_order iface values)) data)"
proof
  show "tx_entry_lines iface values = lines_in_order source_field_order iface values"
    by (rule tx_entry_lines_order)
  have "(\<lambda>(iface, values).
                    if has_tx_power_values values then concat (tx_entry_lines iface values)
                    else []) = (\<lambda>(iface, values). concat (lines_in_order source_field_order iface values))"
    by (auto simp: fun_eq_iff tx_entry_lines_order lines_in_order_empty)
  then show "tx_power_overrides_text data =
       ''# OpenHD SysUtils Wi-Fi TX power overrides\<newline>'' @
       concat (map (\<lambda>(iface, values). concat (lines_in_order source_field_order iface values)) data)"
    by (simp add: tx_power_overrides_text_def)
qed

section \<open>Facts about profile lookup\<close>

lemma or_else_simps [simp]:
  "or_else None b = b" "or_else (Some x) b = Some x" "or_else a None = a"
  by (simp_all add: or_else_def split: option.splits)

lemma find_wifi_profile_loop_eq:
  "find_wifi_profile_loop ps v d c vdm gm =
     or_else (List.find (exact_nonempty_match v d c) ps)
       (or_else (or_else gm (List.find (generic_match v d) ps))
          (or_else vdm (List.find (vendor_device_matches v d) ps)))"
proof (induction ps arbitrary: vdm gm)
  case Nil
  show ?case by (simp add: or_else_def split: option.splits)
next
  case (Cons p ps)
  show ?case
  proof (cases "vendor_device_matches v d p")
    case False
    then have nm: "(equal_after_uppercase (vendor_id p) v \<and>
         equal_after_uppercase (device_id p) d) = False"
      by (simp add: vendor_device_matches_def)
    have "find_wifi_profile_loop (p # ps) v d c vdm gm = find_wifi_profile_loop ps v d c vdm gm"
      unfolding find_wifi_profile_loop.simps nm by simp
    then show ?thesis
      using False by (simp add: Cons.IH exact_nonempty_match_def generic_match_def)
  next
    case vd: True
    show ?thesis
    proof (cases "chipset p = []")
      case True
      have "find_wifi_profile_loop (p # ps) v d c vdm gm =
            find_wifi_profile_loop ps v d c (or_else vdm (Some p)) (or_else gm (Some p))"
        using vd True by (cases vdm; cases gm) (simp_all add: vendor_device_matches_def)
      then show ?thesis
        using vd True
        by (cases vdm; cases gm) (simp_all add: Cons.IH exact_nonempty_match_def generic_match_def)
    next
      case ne: False
      show ?thesis
      proof (cases "equal_after_uppercase (chipset p) c")
        case True
        then show ?thesis
          using vd ne by (simp add: vendor_device_matches_def exact_nonempty_match_def)
      next
        case False
        have "find_wifi_profile_loop (p # ps) v d c vdm gm =
            find_wifi_profile_loop ps v d c (or_else vdm (Some p)) gm"
          using vd ne False by (cases vdm) (simp_all add: vendor_device_matches_def)
        then show ?thesis
          using vd ne False
          by (cases vdm) (simp_all add: Cons.IH exact_nonempty_match_def generic_match_def)
      qed
    qed
  qed
qed

lemma exact_match_blank:
  assumes "to_upper c = []"
  shows "exact_match v d c = generic_match v d" and "exact_nonempty_match v d c = (\<lambda>p. False)"
  using assms
  by (auto simp: fun_eq_iff exact_match_def generic_match_def exact_nonempty_match_def
      equal_after_uppercase_def to_upper_def)

lemma exact_match_nonblank:
  assumes "to_upper c \<noteq> []"
  shows "exact_match v d c = exact_nonempty_match v d c"
  using assms
  by (auto simp: fun_eq_iff exact_match_def exact_nonempty_match_def
      equal_after_uppercase_def to_upper_def)

lemma find_False: "List.find (\<lambda>p. False) ps = None"
  by (induction ps) simp_all

text \<open>
  C4: \<open>find_wifi_profile\<close> returns the first profile whose vendor and device match and
  whose chipset equals the target chipset (all three compared after upper-casing); if
  there is none, the first vendor/device match with an empty chipset; if there is none
  either, the first vendor/device match; and nothing when no profile matches vendor and
  device.
\<close>

theorem C4_find_wifi_profile_precedence:
  "find_wifi_profile profiles vendor device chip =
     spec_find_wifi_profile profiles vendor device chip"
proof -
  have code: "find_wifi_profile profiles vendor device chip =
     or_else (List.find (exact_nonempty_match vendor device chip) profiles)
       (or_else (List.find (generic_match vendor device) profiles)
          (List.find (vendor_device_matches vendor device) profiles))"
    by (simp add: find_wifi_profile_def find_wifi_profile_loop_eq)
  have spec: "spec_find_wifi_profile profiles vendor device chip =
     or_else (List.find (exact_match vendor device chip) profiles)
       (or_else (List.find (generic_match vendor device) profiles)
          (List.find (vendor_device_matches vendor device) profiles))"
    by (simp add: spec_find_wifi_profile_def or_else_def)
  show ?thesis
  proof (cases "to_upper chip = []")
    case True
    show ?thesis
      unfolding code spec exact_match_blank [OF True] find_False
      by (simp add: or_else_def split: option.splits)
  next
    case False
    show ?thesis
      unfolding code spec exact_match_nonblank [OF False] ..
  qed
qed

section \<open>Facts about the iteration of a store\<close>

lemma iteration_sequence_single: "iteration_sequence rank [(k, v)] = [(k, v)]"
  by (simp add: iteration_sequence_def)

lemma set_iteration_sequence:
  "set (iteration_sequence rank data) = set (AList.clearjunk data)"
  by (simp add: iteration_sequence_def)

lemma distinct_keys_permuted:
  assumes "distinct (map fst xs)" and "set ys = set xs" and "distinct ys"
  shows "distinct (map fst ys)"
proof -
  have "inj_on fst (set xs)" using assms(1) by (simp add: distinct_map)
  then show ?thesis using assms(2,3) by (simp add: distinct_map)
qed

lemma distinct_iteration_sequence: "distinct (map fst (iteration_sequence rank data))"
proof (rule distinct_keys_permuted)
  show "distinct (map fst (AList.clearjunk data))" by (rule AList.distinct_clearjunk)
  show "set (iteration_sequence rank data) = set (AList.clearjunk data)"
    by (rule set_iteration_sequence)
  have "distinct (AList.clearjunk data)"
    using AList.distinct_clearjunk [of data] by (simp add: distinct_map)
  then show "distinct (iteration_sequence rank data)"
    by (simp add: iteration_sequence_def)
qed

lemma map_of_iteration_sequence: "map_of (iteration_sequence rank data) = map_of data"
proof -
  have "map_of (iteration_sequence rank data) = map_of (AList.clearjunk data)"
    using distinct_iteration_sequence [of rank data] AList.distinct_clearjunk [of data]
    by (simp add: map_of_inject_set set_iteration_sequence)
  then show ?thesis by (simp add: AList.map_of_clearjunk)
qed

lemma entries_from_keys:
  "distinct (map fst xs) \<Longrightarrow> xs = map (\<lambda>k. (k, the (map_of xs k))) (map fst xs)"
proof (induction xs)
  case Nil
  show ?case by simp
next
  case (Cons e xs)
  obtain k v where e: "e = (k, v)" by (cases e)
  have d: "distinct (map fst xs)" and nk: "k \<notin> fst ` set xs"
    using Cons.prems e by simp_all
  have "map (\<lambda>k'. (k', the (map_of ((k, v) # xs) k'))) (map fst xs) =
        map (\<lambda>k'. (k', the (map_of xs k'))) (map fst xs)"
    using nk by (intro map_cong) auto
  also have "\<dots> = xs"
    using Cons.IH [OF d] by simp
  finally have rest: "map (\<lambda>k'. (k', the (map_of ((k, v) # xs) k'))) (map fst xs) = xs" .
  have "map (\<lambda>k'. (k', the (map_of ((k, v) # xs) k'))) (map fst ((k, v) # xs)) =
        (k, v) # map (\<lambda>k'. (k', the (map_of ((k, v) # xs) k'))) (map fst xs)"
    by simp
  then show ?case unfolding e rest by simp
qed

lemma key_sorted_unique:
  assumes "distinct (map fst xs)" and "distinct (map fst ys)" and "map_of xs = map_of ys"
  shows "sort_key fst xs = sort_key fst ys"
proof -
  let ?a = "sort_key fst xs" and ?b = "sort_key fst ys"
  have s: "set xs = set ys"
    using assms by (simp add: map_of_inject_set)
  have dx: "distinct xs" and dy: "distinct ys"
    using assms(1,2) by (simp_all add: distinct_map)
  have da: "distinct (map fst ?a)"
    using assms(1) by (rule distinct_keys_permuted) (simp_all add: dx)
  have db: "distinct (map fst ?b)"
    using assms(2) by (rule distinct_keys_permuted) (simp_all add: dy)
  have "sorted (map fst ?a)" and "sorted (map fst ?b)"
    by (rule sorted_sort_key)+
  moreover have "set (map fst ?a) = set (map fst ?b)"
    using s by simp
  ultimately have keys: "map fst ?a = map fst ?b"
    using da db by (intro sorted_distinct_set_unique)
  have "map_of ?a = map_of ?b"
    using da db s by (simp add: map_of_inject_set)
  then show ?thesis
    using entries_from_keys [OF da] entries_from_keys [OF db] keys by metis
qed

lemma iteration_sequence_of_map:
  assumes "map_of xs = map_of ys"
  shows "iteration_sequence rank xs = iteration_sequence rank ys"
proof -
  have "map_of (AList.clearjunk xs) = map_of (AList.clearjunk ys)"
    using assms by (simp add: AList.map_of_clearjunk)
  then have "sort_key fst (AList.clearjunk xs) = sort_key fst (AList.clearjunk ys)"
    using AList.distinct_clearjunk AList.distinct_clearjunk by (rule key_sorted_unique [rotated 2])
  then show ?thesis by (simp add: iteration_sequence_def)
qed

lemma writers_read_the_map:
  assumes "map_of xs = map_of ys"
  shows "write_tx_power_overrides xs w = write_tx_power_overrides ys w"
  using iteration_sequence_of_map [OF assms]
  by (simp add: write_tx_power_overrides_def)

lemma write_overrides_reads_the_map:
  assumes "map_of xs = map_of ys"
  shows "write_overrides xs w = write_overrides ys w"
  using iteration_sequence_of_map [OF assms]
  by (simp add: write_overrides_def)

lemma rank_sorted_unique:
  assumes "sorted (map f es)" and "distinct (map f es)" and "set ys = set es" and "distinct ys"
  shows "sort_key f ys = es"
proof -
  have inj: "inj_on f (set es)" using assms(2) by (simp add: distinct_map)
  have "distinct (map f (sort_key f ys))"
    using inj assms(3,4) by (simp add: distinct_map)
  moreover have "sorted (map f (sort_key f ys))" by (rule sorted_sort_key)
  moreover have "set (map f (sort_key f ys)) = set (map f es)"
    using assms(3) by simp
  ultimately have "map f (sort_key f ys) = map f es"
    using assms(1,2) by (intro sorted_distinct_set_unique)
  moreover have "inj_on f (set (sort_key f ys) \<union> set es)"
    using inj assms(3) by simp
  ultimately show ?thesis by (simp add: inj_on_map_eq_map)
qed

lemma position_in_list:
  assumes "distinct ks"
  shows "map (\<lambda>k. the (map_of (zip ks [0..<length ks]) k)) ks = [0..<length ks]"
proof (rule nth_equalityI)
  show "length (map (\<lambda>k. the (map_of (zip ks [0..<length ks]) k)) ks) = length [0..<length ks]"
    by simp
  fix i assume "i < length (map (\<lambda>k. the (map_of (zip ks [0..<length ks]) k)) ks)"
  then have i: "i < length ks" by simp
  then have "map_of (zip ks [0..<length ks]) (ks ! i) = Some ([0..<length ks] ! i)"
    using assms by (intro map_of_zip_nth) simp_all
  then show "map (\<lambda>k. the (map_of (zip ks [0..<length ks]) k)) ks ! i = [0..<length ks] ! i"
    using i by simp
qed

lemma iteration_sequence_any_order:
  assumes "distinct (map fst es)" and "map_of es = map_of data"
  shows "\<exists>rank. iteration_sequence rank data = es"
proof -
  define rank where "rank = (\<lambda>k. the (map_of (zip (map fst es) [0..<length es]) k))"
  have ranks: "map (\<lambda>entry. rank (fst entry)) es = [0..<length es]"
    using position_in_list [OF assms(1)] by (simp add: rank_def comp_def)
  have "iteration_sequence rank data = iteration_sequence rank es"
    using assms(2) by (intro iteration_sequence_of_map) simp
  also have "\<dots> = sort_key (\<lambda>entry. rank (fst entry)) (sort_key fst es)"
    using assms(1) by (simp add: iteration_sequence_def AList.distinct_clearjunk_id)
  also have "\<dots> = es"
  proof (rule rank_sorted_unique)
    show "sorted (map (\<lambda>entry. rank (fst entry)) es)" by (simp add: ranks)
    show "distinct (map (\<lambda>entry. rank (fst entry)) es)" by (simp add: ranks)
    show "set (sort_key fst es) = set es" by simp
    show "distinct (sort_key fst es)" using assms(1) by (simp add: distinct_map)
  qed
  finally show ?thesis by blast
qed

section \<open>Facts about policy resolution and the dispatcher\<close>

lemma backfill_tx_high_low_keeps:
  "ci_tx_power (backfill_tx_high_low profile c) = ci_tx_power c"
  "ci_power_level (backfill_tx_high_low profile c) = ci_power_level c"
  by (simp_all add: backfill_tx_high_low_def Let_def split: option.splits)

lemma build_wifi_card_fixed:
  assumes "resolved_profile i probe ov tx ps = Some p"
    and "to_upper (power_mode p) = ''FIXED''"
  shows "ci_power_level (build_wifi_card i probe ov tx ps) = ''FIXED''"
    and "ci_tx_power (build_wifi_card i probe ov tx ps) = []"
proof -
  have sel: "select_profile ps (apply_type_override (map_of ov i) (probed_card i probe))
               (map_of tx i) = Some p"
    using assms(1) by (simp add: resolved_profile_def)
  show "ci_power_level (build_wifi_card i probe ov tx ps) = ''FIXED''"
    unfolding build_wifi_card_def Let_def sel
    by (simp add: assms(2) backfill_tx_high_low_keeps)
  show "ci_tx_power (build_wifi_card i probe ov tx ps) = []"
    unfolding build_wifi_card_def Let_def sel
    by (simp add: assms(2) backfill_tx_high_low_keeps)
qed

text \<open>
  C5: when the profile resolved for an interface is \<open>FIXED\<close>, the card has
  \<open>power_level = "FIXED"\<close> and an empty \<open>tx_power\<close>, whatever the override stores hold.
\<close>

theorem C5_fixed_profile_forces_level:
  assumes "resolved_profile iface probe overrides tx_overrides profiles = Some p"
    and "to_upper (power_mode p) = ''FIXED''"
  shows "ci_power_level (build_wifi_card iface probe overrides tx_overrides profiles) = ''FIXED''
       \<and> ci_tx_power (build_wifi_card iface probe overrides tx_overrides profiles) = []"
  using build_wifi_card_fixed [OF assms] by simp

lemma build_wifi_card_level:
  assumes "resolved_profile i probe ov tx ps = Some p"
    and "to_upper (power_mode p) \<noteq> ''FIXED''"
    and "map_of tx i = Some e"
    and "power_level e \<noteq> []"
    and "0 < selected_mw p (to_upper (power_level e))"
  shows "ci_tx_power (build_wifi_card i probe ov tx ps) =
           to_string (selected_mw p (to_upper (power_level e)))"
proof -
  have sel: "select_profile ps (apply_type_override (map_of ov i) (probed_card i probe))
               (map_of tx i) = Some p"
    using assms(1) by (simp add: resolved_profile_def)
  have ne: "to_upper (power_level e) \<noteq> []"
    using assms(4) by (simp add: to_upper_def)
  show ?thesis
    unfolding build_wifi_card_def Let_def sel
    using assms(2,4,5) ne
    by (simp add: assms(3) backfill_tx_high_low_keeps apply_power_level_def apply_tx_override_def)
qed

text \<open>
  C8: a \<open>sysutil.link.control\<close> request whose \<open>channel_width_mhz\<close> is 40 is answered
  with \<open>ok:false\<close> and the fixed message, and \<open>send_openhd_control\<close> is not called,
  whatever the other fields are.
\<close>

theorem C8_width_40_rejected:
  assumes "lc_channel_width_mhz req = Some 40"
  shows \<open>handle_link_control_request req send_openhd_control =
           (''{"type":"sysutil.link.control.response","ok":false,"message":"40 MHz channel width is disabled."}\<newline>'',
            None)\<close>
proof -
  have hv: "link_control_has_value req"
    using assms by (simp add: link_control_has_value_def)
  have esc: "json_escape ''40 MHz channel width is disabled.'' = ''40 MHz channel width is disabled.''"
    by code_simp
  show ?thesis
    using hv assms
    by (simp add: handle_link_control_request_def link_control_response_def esc)
qed

lemma json_escape_set: "json_escape ''set'' = ''set''"
  by code_simp

lemma apply_wifi_update_no_interface:
  assumes "req_interface req = None \<or> req_interface req = Some []"
  shows "apply_wifi_update ''set'' req w = (False, w)"
  using assms by (auto simp: apply_wifi_update_def Let_def)

text \<open>
  C9: a \<open>sysutil.wifi.update\<close> request with action \<open>set\<close> and a missing or empty
  \<open>interface\<close> is answered with \<open>ok:false\<close>, and the state of the process is unchanged:
  neither override file is written.
\<close>

theorem C9_set_without_interface:
  assumes "req_action req = Some ''set''"
    and "req_interface req = None \<or> req_interface req = Some []"
  shows \<open>handle_wifi_update req w =
           (''{"type":"sysutil.wifi.update.response","ok":false,"action":"set"}\<newline>'', w)
         \<and> overrides_file (snd (handle_wifi_update req w)) = overrides_file w
         \<and> tx_power_file (snd (handle_wifi_update req w)) = tx_power_file w
         \<and> files_written (snd (handle_wifi_update req w)) = files_written w\<close>
proof -
  have a: "value_or (req_action req) ''refresh'' = ''set''"
    using assms(1) by (simp add: value_or_def)
  have \<open>handle_wifi_update req w =
           (''{"type":"sysutil.wifi.update.response","ok":false,"action":"set"}\<newline>'', w)\<close>
    unfolding handle_wifi_update_def a Let_def apply_wifi_update_no_interface [OF assms(2)]
    by (simp add: json_escape_set)
  then show ?thesis by simp
qed

lemma merge_tx_power_fields_level:
  assumes "req_power_level req = Some l" and "l \<noteq> []" and "\<not> equal_after_uppercase l ''AUTO''"
  shows "tx_power (merge_tx_power_fields req e0) = []"
    and "tx_power_high (merge_tx_power_fields req e0) = []"
    and "tx_power_low (merge_tx_power_fields req e0) = []"
    and "power_level (merge_tx_power_fields req e0) = to_upper (trim_copy l)"
  using assms
  by (simp_all add: merge_tx_power_fields_def Let_def split: option.splits)

lemma map_of_merged_tx_overrides:
  "map_of (merged_tx_overrides req iface store) iface =
     (if has_tx_power_values
           (merge_tx_power_fields req (value_or (map_of store iface) empty_tx_override))
      then Some (merge_tx_power_fields req (value_or (map_of store iface) empty_tx_override))
      else None)"
  by (simp add: merged_tx_overrides_def Let_def AList.update_conv' AList.delete_conv')

lemma set_type_override_tx:
  "tx_power_file (snd (set_type_override req iface ov w)) = tx_power_file w"
  "tx_power_writable (snd (set_type_override req iface ov w)) = tx_power_writable w"
  by (simp_all add: set_type_override_def write_overrides_def split: option.splits)

lemma refresh_wifi_info_files:
  "tx_power_file (refresh_wifi_info w) = tx_power_file w"
  "overrides_file (refresh_wifi_info w) = overrides_file w"
  "files_written (refresh_wifi_info w) = files_written w"
  by (simp_all add: refresh_wifi_info_def Let_def)

lemma wifi_cards_files:
  "tx_power_file (snd (wifi_cards w)) = tx_power_file w"
  "overrides_file (snd (wifi_cards w)) = overrides_file w"
  "files_written (snd (wifi_cards w)) = files_written w"
  by (simp_all add: wifi_cards_def Let_def refresh_wifi_info_files)

lemma handle_wifi_update_tx_file:
  "tx_power_file (snd (handle_wifi_update req w)) =
   tx_power_file (snd (apply_wifi_update (value_or (req_action req) ''refresh'') req w))"
  by (simp add: handle_wifi_update_def Let_def split_beta wifi_cards_files refresh_wifi_info_files)

lemma set_type_override_rank:
  "tx_power_rank (snd (set_type_override req iface ov w)) = tx_power_rank w"
  by (simp add: set_type_override_def write_overrides_def split: option.splits)

lemma apply_wifi_update_set_tx_file:
  assumes "req_interface req = Some iface" and "iface \<noteq> []"
    and "has_tx_power_request req" and "tx_power_writable w"
  shows "tx_power_file (snd (apply_wifi_update ''set'' req w)) =
         Some (tx_power_overrides_text
                 (iteration_sequence (tx_power_rank w)
                    (merged_tx_overrides req iface (load_tx_power_overrides w))))"
  using assms
  by (simp add: apply_wifi_update_def Let_def split_beta set_tx_power_override_def
      write_tx_power_overrides_def set_type_override_tx set_type_override_rank)

text \<open>
  C10: in a \<open>set\<close> request for a non-empty interface that carries both a \<open>tx_power\<close> and
  a non-empty, non-\<open>AUTO\<close> \<open>power_level\<close>, the merged record has \<open>tx_power\<close>,
  \<open>tx_power_high\<close> and \<open>tx_power_low\<close> empty and \<open>power_level\<close> equal to the
  upper-cased, trimmed level. This record is the one kept in the store for the interface
  (or the interface is erased when the record is empty), and when the file can be
  written its new content is the text of the entries of that store, in the order in
  which the container is iterated.
\<close>

theorem C10_level_clears_raw_power:
  assumes "req_action req = Some ''set''"
    and "req_interface req = Some iface" and "iface \<noteq> []"
    and "req_tx_power req = Some t"
    and "req_power_level req = Some l" and "l \<noteq> []"
    and "\<not> equal_after_uppercase l ''AUTO''"
    and "merged = merge_tx_power_fields req
                    (value_or (map_of (load_tx_power_overrides w) iface) empty_tx_override)"
  shows "tx_power merged = [] \<and> tx_power_high merged = [] \<and> tx_power_low merged = []
       \<and> power_level merged = to_upper (trim_copy l)
       \<and> map_of (merged_tx_overrides req iface (load_tx_power_overrides w)) iface =
           (if has_tx_power_values merged then Some merged else None)
       \<and> (tx_power_writable w \<longrightarrow>
            (\<exists>entries. distinct (map fst entries)
               \<and> map_of entries = map_of (merged_tx_overrides req iface (load_tx_power_overrides w))
               \<and> tx_power_file (snd (handle_wifi_update req w)) =
                   Some (tx_power_overrides_text entries)))"
proof (intro conjI impI)
  show "tx_power merged = []" "tx_power_high merged = []" "tx_power_low merged = []"
    "power_level merged = to_upper (trim_copy l)"
    unfolding assms(8) using assms(5,6,7) by (rule merge_tx_power_fields_level)+
  show "map_of (merged_tx_overrides req iface (load_tx_power_overrides w)) iface =
           (if has_tx_power_values merged then Some merged else None)"
    unfolding assms(8) by (rule map_of_merged_tx_overrides)
  assume wr: "tx_power_writable w"
  let ?store = "merged_tx_overrides req iface (load_tx_power_overrides w)"
  have a: "value_or (req_action req) ''refresh'' = ''set''"
    using assms(1) by (simp add: value_or_def)
  have r: "has_tx_power_request req"
    using assms(4) by (simp add: has_tx_power_request_def)
  have "tx_power_file (snd (handle_wifi_update req w)) =
          Some (tx_power_overrides_text (iteration_sequence (tx_power_rank w) ?store))"
    unfolding handle_wifi_update_tx_file a
    using assms(2,3) r wr by (rule apply_wifi_update_set_tx_file)
  moreover have "distinct (map fst (iteration_sequence (tx_power_rank w) ?store))"
    by (rule distinct_iteration_sequence)
  moreover have "map_of (iteration_sequence (tx_power_rank w) ?store) = map_of ?store"
    by (rule map_of_iteration_sequence)
  ultimately show "\<exists>entries. distinct (map fst entries)
               \<and> map_of entries = map_of ?store
               \<and> tx_power_file (snd (handle_wifi_update req w)) =
                   Some (tx_power_overrides_text entries)"
    by blast
qed

section \<open>Witnesses on the example inputs\<close>

text \<open>
  Witness for C5: the onboard adapter of the built-in catalog, with a stored level and
  a stored raw \<open>tx_power\<close>.
\<close>

theorem C5_fixed_profile_witness:
  "resolved_profile ''wlan0'' example_onboard_probe [] example_level_store
     default_wifi_card_profiles = Some (hd default_wifi_card_profiles)
   \<and> to_upper (power_mode (hd default_wifi_card_profiles)) = ''FIXED''
   \<and> ci_power_level (build_wifi_card ''wlan0'' example_onboard_probe [] example_level_store
        default_wifi_card_profiles) = ''FIXED''
   \<and> ci_tx_power (build_wifi_card ''wlan0'' example_onboard_probe [] example_level_store
        default_wifi_card_profiles) = []"
proof -
  have h1: "resolved_profile ''wlan0'' example_onboard_probe [] example_level_store
     default_wifi_card_profiles = Some (hd default_wifi_card_profiles)"
    by code_simp
  have h2: "to_upper (power_mode (hd default_wifi_card_profiles)) = ''FIXED''"
    by code_simp
  from C5_fixed_profile_forces_level [OF h1 h2] h1 h2 show ?thesis by blast
qed

lemma level_figure_selected:
  "level_figure p level = Some mw \<Longrightarrow> selected_mw p level = mw"
  by (auto simp: level_figure_def selected_mw_def split: if_splits)

lemma g_wifi_cards_refresh:
  "g_wifi_cards (refresh_wifi_info w) =
     map (\<lambda>(i, pr). build_wifi_card i pr (load_overrides w) (load_tx_power_overrides w)
                       (load_wifi_card_profiles (cards_file w)))
       (wifi_interfaces w)"
  by (simp add: refresh_wifi_info_def detect_wifi_cards_def Let_def)

lemma refresh_wifi_info_loads:
  "load_overrides (refresh_wifi_info w) = load_overrides w"
  "load_tx_power_overrides (refresh_wifi_info w) = load_tx_power_overrides w"
  by (simp_all add: load_overrides_def load_tx_power_overrides_def refresh_wifi_info_files)

lemma stage_interface_name:
  "ci_interface_name (apply_type_override o_it c) = ci_interface_name c"
  "ci_interface_name (apply_profile profile c) = ci_interface_name c"
  "ci_interface_name (apply_tx_override tx_it c) = ci_interface_name c"
  "ci_interface_name (apply_power_level profile fixed c) = ci_interface_name c"
  "ci_interface_name (backfill_tx_high_low profile c) = ci_interface_name c"
  by (simp_all add: apply_type_override_def apply_profile_def apply_tx_override_def
      apply_power_level_def backfill_tx_high_low_def Let_def split: option.splits)

lemma build_wifi_card_interface_name:
  "ci_interface_name (build_wifi_card iface probe ov tx ps) = iface"
proof -
  have "ci_interface_name (probed_card iface probe) = iface"
    by (simp add: probed_card_def)
  then show ?thesis
    unfolding build_wifi_card_def Let_def
    by (simp add: stage_interface_name)
qed

text \<open>
  C6: when the profile resolved for an interface is not \<open>FIXED\<close> and the power-override
  record of the interface has a non-empty \<open>power_level\<close> that, upper-cased, is one of
  \<open>LOWEST\<close>, \<open>LOW\<close>, \<open>MID\<close>, \<open>HIGH\<close>, and the corresponding figure of the profile is
  positive, then \<open>tx_power\<close> of the card is the decimal string of that figure. This holds
  in every resolution cycle: \<open>refresh_wifi_info\<close> builds the card of each interface from
  the override files and the catalog as they are at that moment, and it writes neither
  override file.
\<close>

theorem C6_power_level_selects_figure:
  assumes "(iface, probe) \<in> set (wifi_interfaces w)"
    and "resolved_profile iface probe (load_overrides w) (load_tx_power_overrides w)
           (load_wifi_card_profiles (cards_file w)) = Some p"
    and "to_upper (power_mode p) \<noteq> ''FIXED''"
    and "map_of (load_tx_power_overrides w) iface = Some e"
    and "power_level e \<noteq> []"
    and "level_figure p (to_upper (power_level e)) = Some mw"
    and "0 < mw"
    and "resolved = build_wifi_card iface probe (load_overrides w) (load_tx_power_overrides w)
                      (load_wifi_card_profiles (cards_file w))"
  shows "g_wifi_cards (refresh_wifi_info w) =
           map (\<lambda>(i, pr). build_wifi_card i pr (load_overrides w) (load_tx_power_overrides w)
                             (load_wifi_card_profiles (cards_file w)))
             (wifi_interfaces w)
       \<and> resolved \<in> set (g_wifi_cards (refresh_wifi_info w))
       \<and> ci_interface_name resolved = iface
       \<and> ci_tx_power resolved = to_string mw
       \<and> overrides_file (refresh_wifi_info w) = overrides_file w
       \<and> tx_power_file (refresh_wifi_info w) = tx_power_file w
       \<and> files_written (refresh_wifi_info w) = files_written w"
proof (intro conjI)
  show "g_wifi_cards (refresh_wifi_info w) =
           map (\<lambda>(i, pr). build_wifi_card i pr (load_overrides w) (load_tx_power_overrides w)
                             (load_wifi_card_profiles (cards_file w)))
             (wifi_interfaces w)"
    by (rule g_wifi_cards_refresh)
  show "resolved \<in> set (g_wifi_cards (refresh_wifi_info w))"
    unfolding g_wifi_cards_refresh assms(8) using assms(1) by force
  show "ci_interface_name resolved = iface"
    unfolding assms(8) by (rule build_wifi_card_interface_name)
  have "selected_mw p (to_upper (power_level e)) = mw"
    using assms(6) by (rule level_figure_selected)
  then show "ci_tx_power resolved = to_string mw"
    unfolding assms(8) using build_wifi_card_level [OF assms(2-5)] assms(7) by simp
  show "overrides_file (refresh_wifi_info w) = overrides_file w"
    "tx_power_file (refresh_wifi_info w) = tx_power_file w"
    "files_written (refresh_wifi_info w) = files_written w"
    by (rule refresh_wifi_info_files)+
qed

text \<open>
  Witness for C6: the stored level \<open>high\<close> on the USB adapter gives \<open>1000\<close> in a cycle
  with the built-in catalog and \<open>800\<close> in the next cycle, after the catalog file has
  got a profile whose \<open>high\<close> is 800; the power-override file is the same throughout
  and no file is written.
\<close>

theorem C6_power_level_witness:
  "(''wlan0'', example_usb_probe) \<in> set (wifi_interfaces example_level_world)
   \<and> map_of (load_tx_power_overrides example_level_world) ''wlan0'' =
       Some (empty_tx_override\<lparr>tx_power := ''100'', power_level := ''high''\<rparr>)
   \<and> level_figure (default_wifi_card_profiles ! 1) ''HIGH'' = Some 1000
   \<and> map ci_tx_power (g_wifi_cards (refresh_wifi_info example_level_world)) = [''1000'']
   \<and> level_figure (hd (load_wifi_card_profiles (Some example_catalog))) ''HIGH'' = Some 800
   \<and> map ci_tx_power
        (g_wifi_cards (refresh_wifi_info
           ((refresh_wifi_info example_level_world)\<lparr>cards_file := Some example_catalog\<rparr>)))
       = [''800'']
   \<and> tx_power_file (refresh_wifi_info
           ((refresh_wifi_info example_level_world)\<lparr>cards_file := Some example_catalog\<rparr>))
       = tx_power_file example_level_world
   \<and> files_written (refresh_wifi_info
           ((refresh_wifi_info example_level_world)\<lparr>cards_file := Some example_catalog\<rparr>))
       = []"
proof -
  let ?e = "empty_tx_override\<lparr>tx_power := ''100'', power_level := ''high''\<rparr>"
  let ?w = "example_level_world"
  let ?v = "(refresh_wifi_info example_level_world)\<lparr>cards_file := Some example_catalog\<rparr>"
  let ?p = "default_wifi_card_profiles ! 1"
  let ?q = "hd (load_wifi_card_profiles (Some example_catalog))"
  have i: "wifi_interfaces ?w = [(''wlan0'', example_usb_probe)]" by code_simp
  have h1: "(''wlan0'', example_usb_probe) \<in> set (wifi_interfaces ?w)" by (simp add: i)
  have h2: "resolved_profile ''wlan0'' example_usb_probe (load_overrides ?w)
              (load_tx_power_overrides ?w) (load_wifi_card_profiles (cards_file ?w)) = Some ?p"
    by code_simp
  have h3: "to_upper (power_mode ?p) \<noteq> ''FIXED''" by code_simp
  have h4: "map_of (load_tx_power_overrides ?w) ''wlan0'' = Some ?e" by code_simp
  have h5: "power_level ?e \<noteq> []" by simp
  have h6: "level_figure ?p (to_upper (power_level ?e)) = Some 1000" by code_simp
  have h6': "level_figure ?p ''HIGH'' = Some 1000" by code_simp
  have s: "to_string 1000 = ''1000''" by code_simp
  note c = C6_power_level_selects_figure [OF h1 h2 h3 h4 h5 h6 _ refl]
  have a: "map ci_tx_power (g_wifi_cards (refresh_wifi_info ?w)) = [''1000'']"
    using c by (simp add: i s)
  have v: "load_overrides ?v = load_overrides ?w"
    "load_tx_power_overrides ?v = load_tx_power_overrides ?w"
    "cards_file ?v = Some example_catalog"
    "wifi_interfaces ?v = wifi_interfaces ?w"
    "tx_power_file ?v = tx_power_file ?w"
    "files_written ?v = files_written ?w"
    by (simp_all add: load_overrides_def load_tx_power_overrides_def refresh_wifi_info_def
        Let_def)
  have fw: "files_written ?w = []" by code_simp
  have k1: "(''wlan0'', example_usb_probe) \<in> set (wifi_interfaces ?v)" by (simp add: v i)
  have "resolved_profile ''wlan0'' example_usb_probe (load_overrides ?w)
              (load_tx_power_overrides ?w) (load_wifi_card_profiles (Some example_catalog))
          = Some ?q"
    by code_simp
  then have k2: "resolved_profile ''wlan0'' example_usb_probe (load_overrides ?v)
              (load_tx_power_overrides ?v) (load_wifi_card_profiles (cards_file ?v)) = Some ?q"
    by (simp only: v)
  have k3: "to_upper (power_mode ?q) \<noteq> ''FIXED''" by code_simp
  have k4: "map_of (load_tx_power_overrides ?v) ''wlan0'' = Some ?e"
    using h4 by (simp only: v)
  have k6: "level_figure ?q (to_upper (power_level ?e)) = Some 800" by code_simp
  have k6': "level_figure ?q ''HIGH'' = Some 800" by code_simp
  have t: "to_string 800 = ''800''" by code_simp
  note d = C6_power_level_selects_figure [OF k1 k2 k3 k4 h5 k6 _ refl]
  have b: "map ci_tx_power (g_wifi_cards (refresh_wifi_info ?v)) = [''800'']"
    using d by (simp add: v i t)
  have b': "tx_power_file (refresh_wifi_info ?v) = tx_power_file ?w"
    "files_written (refresh_wifi_info ?v) = []"
    using d by (simp_all add: v fw)
  from h1 h4 h6' a k6' b b' show ?thesis by blast
qed

text \<open>Witness for C8: width 40 together with an interface, a frequency and an MCS index.\<close>

theorem C8_width_40_witness:
  \<open>lc_channel_width_mhz example_link_request = Some 40
   \<and> handle_link_control_request example_link_request example_peer =
       (''{"type":"sysutil.link.control.response","ok":false,"message":"40 MHz channel width is disabled."}\<newline>'',
        None)\<close>
proof -
  have h: "lc_channel_width_mhz example_link_request = Some 40"
    by (simp add: example_link_request_def)
  from C8_width_40_rejected [OF h] h show ?thesis by blast
qed

text \<open>Witness for C9: the example request with an empty, and with a missing, interface.\<close>

theorem C9_set_without_interface_witness:
  \<open>req_action (example_request\<lparr>req_interface := Some []\<rparr>) = Some ''set''
   \<and> handle_wifi_update (example_request\<lparr>req_interface := Some []\<rparr>) example_world =
       (''{"type":"sysutil.wifi.update.response","ok":false,"action":"set"}\<newline>'',
        example_world)
   \<and> handle_wifi_update (example_request\<lparr>req_interface := None\<rparr>) example_world =
       (''{"type":"sysutil.wifi.update.response","ok":false,"action":"set"}\<newline>'',
        example_world)\<close>
proof -
  have h1: "req_action (example_request\<lparr>req_interface := Some []\<rparr>) = Some ''set''"
    by (simp add: example_request_def)
  have h2: "req_interface (example_request\<lparr>req_interface := Some []\<rparr>) = None \<or>
            req_interface (example_request\<lparr>req_interface := Some []\<rparr>) = Some []"
    by simp
  have k1: "req_action (example_request\<lparr>req_interface := None\<rparr>) = Some ''set''"
    by (simp add: example_request_def)
  have k2: "req_interface (example_request\<lparr>req_interface := None\<rparr>) = None \<or>
            req_interface (example_request\<lparr>req_interface := None\<rparr>) = Some []"
    by simp
  from C9_set_without_interface [OF h1 h2, of example_world]
    C9_set_without_interface [OF k1 k2, of example_world] h1
  show ?thesis by blast
qed

text \<open>
  Witness for C10: \<open>tx_power = 500\<close> and \<open>power_level = " mid"\<close> on a stored record that
  has a \<open>tx_power_high\<close> and a card name.
\<close>

theorem C10_level_clears_raw_power_witness:
  "req_action example_request = Some ''set''
   \<and> req_interface example_request = Some ''wlan0''
   \<and> req_tx_power example_request = Some ''500''
   \<and> req_power_level example_request = Some '' mid''
   \<and> \<not> equal_after_uppercase '' mid'' ''AUTO''
   \<and> tx_power_writable example_world
   \<and> map_of (merged_tx_overrides example_request ''wlan0''
               (load_tx_power_overrides example_world)) ''wlan0'' =
       Some (empty_tx_override\<lparr>card_name := ''Stick'', power_level := ''MID''\<rparr>)
   \<and> tx_power_file (snd (handle_wifi_update example_request example_world)) =
       Some (''# OpenHD SysUtils Wi-Fi TX power overrides\<newline>'' @
             ''wlan0.card_name=Stick\<newline>wlan0.power_level=MID\<newline>'')"
proof -
  let ?m = "merge_tx_power_fields example_request
              (value_or (map_of (load_tx_power_overrides example_world) ''wlan0'')
                 empty_tx_override)"
  have h1: "req_action example_request = Some ''set''" by (simp add: example_request_def)
  have h2: "req_interface example_request = Some ''wlan0''" by (simp add: example_request_def)
  have h3: "''wlan0'' \<noteq> []" by simp
  have h4: "req_tx_power example_request = Some ''500''" by (simp add: example_request_def)
  have h5: "req_power_level example_request = Some '' mid''" by (simp add: example_request_def)
  have h6: "'' mid'' \<noteq> []" by simp
  have h7: "\<not> equal_after_uppercase '' mid'' ''AUTO''" by code_simp
  have h8: "tx_power_writable example_world" by (simp add: example_world_def)
  have m: "?m = empty_tx_override\<lparr>card_name := ''Stick'', power_level := ''MID''\<rparr>"
    by code_simp
  have hv: "has_tx_power_values (empty_tx_override\<lparr>card_name := ''Stick'', power_level := ''MID''\<rparr>)"
    by code_simp
  have file_text: "tx_power_overrides_text
               (iteration_sequence (tx_power_rank example_world)
                  (merged_tx_overrides example_request ''wlan0''
                     (load_tx_power_overrides example_world))) =
             ''# OpenHD SysUtils Wi-Fi TX power overrides\<newline>'' @
             ''wlan0.card_name=Stick\<newline>wlan0.power_level=MID\<newline>''"
    by code_simp
  have act: "value_or (req_action example_request) ''refresh'' = ''set''"
    by (simp add: h1 value_or_def)
  have r: "has_tx_power_request example_request"
    by (simp add: has_tx_power_request_def h4)
  note c = C10_level_clears_raw_power [OF h1 h2 h3 h4 h5 h6 h7 refl, of example_world]
  have a: "map_of (merged_tx_overrides example_request ''wlan0''
               (load_tx_power_overrides example_world)) ''wlan0'' =
       Some (empty_tx_override\<lparr>card_name := ''Stick'', power_level := ''MID''\<rparr>)"
    using c hv by (simp add: m)
  have b: "tx_power_file (snd (handle_wifi_update example_request example_world)) =
       Some (''# OpenHD SysUtils Wi-Fi TX power overrides\<newline>'' @
             ''wlan0.card_name=Stick\<newline>wlan0.power_level=MID\<newline>'')"
    unfolding handle_wifi_update_tx_file act apply_wifi_update_set_tx_file [OF h2 h3 r h8]
      file_text ..
  from h1 h2 h4 h5 h7 h8 a b show ?thesis by blast
qed

section \<open>Facts about the override files\<close>

lemma getlines_from_line:
  "CHR 0x0A \<notin> set l \<Longrightarrow>
   getlines_from cur (l @ CHR 0x0A # rest) = (cur @ l) # getlines_from [] rest"
  by (induction l arbitrary: cur) auto

lemma getlines_line:
  "CHR 0x0A \<notin> set l \<Longrightarrow> getlines (l @ CHR 0x0A # rest) = l # getlines rest"
  using getlines_from_line [of l "[]" rest] by (simp add: getlines_def)

lemma getlines_Nil: "getlines [] = []"
  by (simp add: getlines_def)

lemma header_no_newline: "CHR 0x0A \<notin> set tx_power_header"
  by (simp add: tx_power_header_def)

lemma header_trimmed: "trim_copy tx_power_header = tx_power_header"
  unfolding tx_power_header_def by code_simp

lemma apply_tx_power_line_header:
  "apply_tx_power_line tx_power_header overrides = overrides"
proof -
  have "hd tx_power_header = CHR ''#''" by (simp add: tx_power_header_def)
  then show ?thesis
    by (simp add: apply_tx_power_line_def header_trimmed Let_def)
qed

lemma split_at_char_first:
  assumes "c \<notin> set a"
  shows "split_at_char c (a @ c # b) = Some (a, b)"
proof -
  have t: "takeWhile (\<lambda>x. x \<noteq> c) (a @ c # b) = a"
    using assms by (induction a) auto
  have d: "dropWhile (\<lambda>x. x \<noteq> c) (a @ c # b) = c # b"
    using assms by (induction a) auto
  show ?thesis by (simp add: split_at_char_def t d)
qed

lemma tx_power_text_header:
  "tx_power_overrides_text data =
     tx_power_header @ CHR 0x0A #
     concat (map (\<lambda>(iface, values).
                    if has_tx_power_values values then concat (tx_entry_lines iface values)
                    else []) data)"
  by (simp add: tx_power_overrides_text_def tx_power_header_def)

lemma parse_tx_power_text:
  "parse_tx_power_overrides (tx_power_header @ CHR 0x0A # rest) =
     fold apply_tx_power_line (getlines rest) []"
  by (simp add: parse_tx_power_overrides_def getlines_line [OF header_no_newline]
      apply_tx_power_line_header)

lemma card_name_field: "trim_copy ''card_name'' = ''card_name''"
  and card_name_upper: "to_upper ''card_name'' = ''CARD_NAME''"
  by code_simp+

lemma set_tx_field_card_name:
  "set_tx_field ''CARD_NAME'' v entry = entry\<lparr>card_name := v\<rparr>"
  by (simp add: set_tx_field_def)

lemma apply_card_name_line:
  assumes "plain_interface_name iface" and "plain_value n"
  shows "apply_tx_power_line (iface @ ''.card_name='' @ n) overrides =
           AList.update iface
             ((value_or (map_of overrides iface) empty_tx_override)\<lparr>card_name := n\<rparr>) overrides"
proof -
  let ?key = "iface @ ''.card_name''"
  let ?line = "iface @ ''.card_name='' @ n"
  have i: "iface \<noteq> []" "\<not> isspace (hd iface)" "\<not> isspace (last iface)"
    "hd iface \<noteq> CHR ''#''" "CHR ''='' \<notin> set iface" "CHR ''.'' \<notin> set iface"
    using assms(1) by (simp_all add: plain_interface_name_def)
  have n: "n \<noteq> []" "\<not> isspace (hd n)" "\<not> isspace (last n)"
    using assms(2) by (simp_all add: plain_value_def)
  have line_trim: "trim_copy ?line = ?line"
  proof (rule trim_copy_fixed)
    show "?line \<noteq> []" using i(1) by simp
    show "\<not> isspace (hd ?line)" using i(1,2) by simp
    show "\<not> isspace (last ?line)" using n(1,3) by simp
  qed
  have line_hd: "hd ?line \<noteq> CHR ''#''" using i(1,4) by simp
  have line_ne: "?line \<noteq> []" using i(1) by simp
  have line_eq: "?line = ?key @ CHR ''='' # n" by simp
  have "CHR ''='' \<notin> set ?key" using i(5) by simp
  then have "split_at_char CHR ''='' (?key @ CHR ''='' # n) = Some (?key, n)"
    by (rule split_at_char_first)
  then have line_split: "split_at_char CHR ''='' ?line = Some (?key, n)"
    by (simp only: line_eq)
  have key_trim: "trim_copy ?key = ?key"
  proof (rule trim_copy_fixed)
    show "?key \<noteq> []" by simp
    show "\<not> isspace (hd ?key)" using i(1,2) by simp
    show "\<not> isspace (last ?key)" by (simp add: isspace_def)
  qed
  have key_ne: "?key \<noteq> []" by simp
  have value_trim: "trim_copy n = n"
    using n by (rule trim_copy_fixed)
  have key_split: "split_at_char CHR ''.'' ?key = Some (iface, ''card_name'')"
    using i(6) by (rule split_at_char_first)
  have iface_trim: "trim_copy iface = iface"
    using i(1,2,3) by (rule trim_copy_fixed)
  show ?thesis
    unfolding apply_tx_power_line_def Let_def line_trim line_split
    using line_ne line_hd i(1)
    by (simp add: key_trim value_trim key_split iface_trim card_name_field card_name_upper
        set_tx_field_card_name del: append.simps append_Cons)
qed

lemma card_name_only_text:
  assumes "n \<noteq> []"
  shows "tx_power_overrides_text [(iface, empty_tx_override\<lparr>card_name := n\<rparr>)] =
           tx_power_header @ CHR 0x0A # (iface @ ''.card_name='' @ n) @ CHR 0x0A # []"
  using assms
  by (simp add: tx_power_text_header has_tx_power_values_def tx_entry_lines_def
      empty_tx_override_def)

lemma parse_card_name_only:
  assumes "plain_interface_name iface" and "plain_value n"
  shows "parse_tx_power_overrides
           (tx_power_overrides_text [(iface, empty_tx_override\<lparr>card_name := n\<rparr>)]) =
         [(iface, empty_tx_override\<lparr>card_name := n\<rparr>)]"
proof -
  have ne: "n \<noteq> []" using assms(2) by (simp add: plain_value_def)
  have nl: "CHR 0x0A \<notin> set (iface @ ''.card_name='' @ n)"
    using assms by (simp add: plain_interface_name_def plain_value_def)
  have "parse_tx_power_overrides
           (tx_power_overrides_text [(iface, empty_tx_override\<lparr>card_name := n\<rparr>)]) =
        fold apply_tx_power_line (getlines ((iface @ ''.card_name='' @ n) @ CHR 0x0A # [])) []"
    unfolding card_name_only_text [OF ne] by (rule parse_tx_power_text)
  also have "\<dots> = apply_tx_power_line (iface @ ''.card_name='' @ n) []"
    unfolding getlines_line [OF nl] by (simp add: getlines_Nil)
  also have "\<dots> = [(iface, empty_tx_override\<lparr>card_name := n\<rparr>)]"
    unfolding apply_card_name_line [OF assms] by (simp add: value_or_def)
  finally show ?thesis .
qed

lemma empty_entries_text:
  "tx_power_overrides_text (filter (\<lambda>(iface, values). has_tx_power_values values) data) =
   tx_power_overrides_text data"
  by (induction data) (auto simp: tx_power_overrides_text_def)

lemma parse_all_empty:
  "parse_tx_power_overrides (tx_power_overrides_text [(iface, empty_tx_override)]) = []"
proof -
  have "tx_power_overrides_text [(iface, empty_tx_override)] = tx_power_header @ CHR 0x0A # []"
    by (simp add: tx_power_text_header has_tx_power_values_def empty_tx_override_def)
  then show ?thesis
    by (simp only: parse_tx_power_text getlines_Nil fold.simps id_apply)
qed

lemma load_after_write:
  "tx_power_writable w \<Longrightarrow>
   load_tx_power_overrides (snd (write_tx_power_overrides data w)) =
     parse_tx_power_overrides
       (tx_power_overrides_text (iteration_sequence (tx_power_rank w) data))"
  by (simp add: load_tx_power_overrides_def write_tx_power_overrides_def)

text \<open>
  C7, as stated, fails: the file format does not keep every card name. The loader trims
  each value, so a card name with a trailing blank comes back without it, and a card
  name that is a single blank comes back as a record with no field set.
\<close>

theorem C7_roundtrip_counterexample:
  "load_tx_power_overrides (snd (write_tx_power_overrides
      [(''wlan0'', empty_tx_override\<lparr>card_name := ''OpenHD ''\<rparr>)] example_world))
     = [(''wlan0'', empty_tx_override\<lparr>card_name := ''OpenHD''\<rparr>)]
   \<and> load_tx_power_overrides (snd (write_tx_power_overrides
      [(''wlan0'', empty_tx_override\<lparr>card_name := ''OpenHD ''\<rparr>)] example_world))
     \<noteq> [(''wlan0'', empty_tx_override\<lparr>card_name := ''OpenHD ''\<rparr>)]
   \<and> load_tx_power_overrides (snd (write_tx_power_overrides
      [(''wlan0'', empty_tx_override\<lparr>card_name := '' ''\<rparr>)] example_world))
     = [(''wlan0'', empty_tx_override)]"
  by code_simp

text \<open>
  C7, amended: when the file can be written, the interface name is plain and the card
  name is plain, writing a store whose one record has only \<open>card_name\<close> set and loading
  it again gives exactly that store; writing a store whose one record is all empty and
  loading it again gives the empty store; and in any store the all-empty records add
  nothing to the file.
\<close>

theorem C7_roundtrip:
  assumes "plain_interface_name iface" and "plain_value n" and "tx_power_writable w"
  shows "fst (write_tx_power_overrides [(iface, empty_tx_override\<lparr>card_name := n\<rparr>)] w)
       \<and> load_tx_power_overrides
           (snd (write_tx_power_overrides [(iface, empty_tx_override\<lparr>card_name := n\<rparr>)] w))
           = [(iface, empty_tx_override\<lparr>card_name := n\<rparr>)]
       \<and> load_tx_power_overrides
           (snd (write_tx_power_overrides [(other, empty_tx_override)] w)) = []
       \<and> tx_power_overrides_text
           (filter (\<lambda>(iface, values). has_tx_power_values values) data)
           = tx_power_overrides_text data"
  using assms(3) parse_card_name_only [OF assms(1,2)] parse_all_empty [of other]
    empty_entries_text [of data]
  by (simp add: load_after_write iteration_sequence_single)
     (simp add: write_tx_power_overrides_def)

text \<open>Witness for C7, amended: the card name \<open>My Card\<close> on \<open>wlan0\<close>.\<close>

theorem C7_roundtrip_witness:
  "plain_interface_name ''wlan0'' \<and> plain_value ''My Card'' \<and> tx_power_writable example_world
   \<and> load_tx_power_overrides
       (snd (write_tx_power_overrides
               [(''wlan0'', empty_tx_override\<lparr>card_name := ''My Card''\<rparr>)] example_world))
       = [(''wlan0'', empty_tx_override\<lparr>card_name := ''My Card''\<rparr>)]
   \<and> load_tx_power_overrides
       (snd (write_tx_power_overrides [(''wlan0'', empty_tx_override)] example_world)) = []"
proof -
  have h1: "plain_interface_name ''wlan0''" by code_simp
  have h2: "plain_value ''My Card''" by code_simp
  have h3: "tx_power_writable example_world" by (simp add: example_world_def)
  from C7_roundtrip [OF h1 h2 h3, of "''wlan0''"] h1 h2 h3 show ?thesis by blast
qed

end
